theory Spec2Isabelle
  imports Complex_Main "HOL-Library.Log_Nat"
begin

section \<open>JavaScript values used by the two components\<close>

text \<open>
  A JavaScript \<open>number\<close> is an IEEE 754 binary64 value. It is modelled as the rational it
  denotes, with the three non-finite values written out, because \<open>a / 0\<close> does not raise
  in JavaScript. Every arithmetic result is rounded to the nearest binary64 value, ties
  to the even significand, as the processor does. The sign of zero is not distinguished:
  every divisor in the two source files is an element dimension, which is never \<open>-0\<close>.
\<close>

datatype jsnum = Fin rat | PosInf | NegInf | NaN

fun is_finite :: "jsnum \<Rightarrow> bool" where
  "is_finite (Fin _) = True"
| "is_finite _ = False"

definition pow2 :: "int \<Rightarrow> rat" where
  "pow2 k = (if 0 \<le> k then 2 ^ nat k else 1 / 2 ^ nat (- k))"

text \<open>For positive \<open>a\<close>, the exponent \<open>k\<close> with \<open>2^k \<le> a < 2^(k+1)\<close>.\<close>

definition ilog2 :: "rat \<Rightarrow> int" where
  "ilog2 a = (if 1 \<le> a then bitlen \<lfloor>a\<rfloor> - 1 else - bitlen (\<lceil>1 / a\<rceil> - 1))"

definition round_half_even :: "rat \<Rightarrow> int" where
  "round_half_even x =
     (let f = \<lfloor>x\<rfloor>; d = x - of_int f
      in if d < 1 / 2 then f else if 1 / 2 < d then f + 1 else if even f then f else f + 1)"

text \<open>
  Rounding an exact result to binary64: 53 significant bits, so the spacing of values
  around \<open>a\<close> is \<open>2^(k - 52)\<close> for the exponent \<open>k\<close> of \<open>a\<close>, and never finer than \<open>2^(-1074)\<close>
  (subnormal numbers). The significand \<open>n\<close> is at most \<open>2^53\<close>; a magnitude that rounds to
  \<open>2^1024\<close> or more, that is, exponent above 1023 or exponent 1023 with \<open>n = 2^53\<close>, is an
  infinity.
\<close>

definition fl64 :: "rat \<Rightarrow> jsnum" where
  "fl64 r =
     (if r = 0 then Fin 0
      else let a = \<bar>r\<bar>;
               e = max (ilog2 a) (- 1022);
               q = pow2 (e - 52);
               n = round_half_even (a / q);
               v = of_int n * q
           in if 1023 < e \<or> (e = 1023 \<and> n = 9007199254740992)
              then (if 0 < r then PosInf else NegInf)
              else Fin (if 0 < r then v else - v))"

definition signed_inf :: "rat \<Rightarrow> jsnum" where
  "signed_inf a = (if a = 0 then NaN else if 0 < a then PosInf else NegInf)"

fun js_div :: "jsnum \<Rightarrow> jsnum \<Rightarrow> jsnum" where
  "js_div (Fin a) (Fin b) = (if b = 0 then signed_inf a else fl64 (a / b))"
| "js_div NaN _ = NaN"
| "js_div _ NaN = NaN"
| "js_div (Fin a) PosInf = Fin 0"
| "js_div (Fin a) NegInf = Fin 0"
| "js_div PosInf (Fin b) = (if 0 \<le> b then PosInf else NegInf)"
| "js_div NegInf (Fin b) = (if 0 \<le> b then NegInf else PosInf)"
| "js_div _ _ = NaN"

fun js_mul :: "jsnum \<Rightarrow> jsnum \<Rightarrow> jsnum" where
  "js_mul (Fin a) (Fin b) = fl64 (a * b)"
| "js_mul NaN _ = NaN"
| "js_mul _ NaN = NaN"
| "js_mul (Fin a) PosInf = signed_inf a"
| "js_mul (Fin a) NegInf = signed_inf (- a)"
| "js_mul PosInf (Fin b) = signed_inf b"
| "js_mul NegInf (Fin b) = signed_inf (- b)"
| "js_mul PosInf PosInf = PosInf"
| "js_mul NegInf NegInf = PosInf"
| "js_mul _ _ = NegInf"

fun js_sub :: "jsnum \<Rightarrow> jsnum \<Rightarrow> jsnum" where
  "js_sub (Fin a) (Fin b) = fl64 (a - b)"
| "js_sub NaN _ = NaN"
| "js_sub _ NaN = NaN"
| "js_sub (Fin a) PosInf = NegInf"
| "js_sub (Fin a) NegInf = PosInf"
| "js_sub PosInf (Fin b) = PosInf"
| "js_sub NegInf (Fin b) = NegInf"
| "js_sub PosInf NegInf = PosInf"
| "js_sub NegInf PosInf = NegInf"
| "js_sub _ _ = NaN"

text \<open>
  Truthiness of the values the source tests with \<open>&&\<close>, \<open>||\<close>, \<open>!\<close> and \<open>if\<close>:
  \<open>null\<close>/\<open>undefined\<close> and the empty string are falsy, every other string is truthy.
\<close>

fun truthy_str :: "string option \<Rightarrow> bool" where
  "truthy_str None = False"
| "truthy_str (Some s) = (s \<noteq> [])"

fun truthy_id :: "nat option \<Rightarrow> bool" where
  "truthy_id None = False"
| "truthy_id (Some n) = (n \<noteq> 0)"

section \<open>App.tsx: data\<close>

record WindowInfo =
  w_id :: nat
  w_title :: string
  w_app_name :: string
  w_width :: nat
  w_height :: nat

record MonitorInfo =
  m_id :: nat
  m_name :: string
  m_width :: nat
  m_height :: nat
  m_is_primary :: bool

datatype Mode = Fullscreen | Window | Area | Record

fun mode_str :: "Mode \<Rightarrow> string" where
  "mode_str Fullscreen = ''fullscreen''"
| "mode_str Window = ''window''"
| "mode_str Area = ''area''"
| "mode_str Record = ''record''"

text \<open>The crop rectangle kept by the crop widget (\<open>Crop\<close> / \<open>PixelCrop\<close>), in the
  coordinates of the rendered image element.\<close>

datatype crop_unit = Px | Percent

record Crop =
  c_unit :: crop_unit
  c_x :: rat
  c_y :: rat
  c_width :: rat
  c_height :: rat

text \<open>The \<open>img\<close> element behind \<open>imgRef\<close>: its intrinsic size and the size it is
  laid out with. All four are unsigned integers in the DOM.\<close>

record img_element =
  naturalWidth :: nat
  naturalHeight :: nat
  el_width :: nat
  el_height :: nat

text \<open>
  An image held in \<open>image\<close> is a base64 string. It is either text received from the
  backend, or the base64 part of \<open>canvas.toDataURL("image/png")\<close>; the latter is kept
  symbolically as the canvas size together with the one \<open>drawImage\<close> call that painted it
  (\<open>None\<close> when the call painted nothing). \<open>originalImage\<close> only ever receives backend
  text, so it is a plain string.
\<close>

record drawop =
  d_src :: string
  d_sx :: rat
  d_sy :: rat
  d_sw :: rat
  d_sh :: rat
  d_dw :: nat
  d_dh :: nat

datatype b64 = Data string | CanvasData nat nat "drawop option"

fun truthy_b64 :: "b64 option \<Rightarrow> bool" where
  "truthy_b64 None = False"
| "truthy_b64 (Some (Data s)) = (s \<noteq> [])"
| "truthy_b64 (Some (CanvasData _ _ _)) = True"

text \<open>A \<open>MediaRecorder\<close> object: the stream it records and whether it is recording.\<close>

datatype rec_state = Inactive | Recording

record recorder =
  r_stream :: nat
  r_state :: rec_state

text \<open>Calls made on the collaborators, in the order they are issued: every backend
  command sent with \<open>invoke\<close>, and the start and stop of a recorder.\<close>

datatype effect =
    InvokeGetWindows
  | InvokeGetMonitors
  | InvokeCaptureWindow nat
  | InvokeCaptureScreen "nat option"
  | InvokeSaveImage string b64
  | InvokeSaveVideo string "nat list"
  | RecorderStart nat
  | RecorderStop nat

record app =
  image :: "b64 option"
  loading :: bool
  status :: string
  mode :: Mode
  windows :: "WindowInfo list"
  monitors :: "MonitorInfo list"
  selectedWindowId :: "nat option"
  selectedMonitorId :: "nat option"
  crop :: "Crop option"
  completedCrop :: "Crop option"
  originalImage :: "string option"
  showSettings :: bool
  defaultPath :: "string option"
  autoSave :: bool
  isRecording :: bool
  mediaRecorderRef :: "nat option"
  recordedChunksRef :: "nat list list"
  recorders :: "recorder list"
  effects :: "effect list"

text \<open>
  What the collaborators answer. A rejected promise or a thrown exception is \<open>Inl\<close> with
  the text that \<open>${error}\<close> interpolates; the save dialog answers a path or \<open>null\<close>.
\<close>

record env =
  get_windows :: "string + WindowInfo list"
  get_monitors :: "string + MonitorInfo list"
  capture_screen :: "nat option \<Rightarrow> string + string"
  capture_window :: "nat \<Rightarrow> string + string"
  save_dialog :: "string + string option"
  save_image :: "string option"
  save_video :: "string option"
  getDisplayMedia :: "string + nat"
  newMediaRecorder :: "string option"
  now_iso :: string
  img_layout :: img_element

definition initial_app :: app where
  "initial_app = \<lparr> image = None, loading = False, status = '''', mode = Fullscreen,
     windows = [], monitors = [], selectedWindowId = None, selectedMonitorId = None,
     crop = None, completedCrop = None, originalImage = None, showSettings = False,
     defaultPath = None, autoSave = False, isRecording = False, mediaRecorderRef = None,
     recordedChunksRef = [], recorders = [], effects = [] \<rparr>"

section \<open>App.tsx: saving\<close>

text \<open>\<open>now.toISOString().replace(/[:.]/g, "-").slice(0, 19)\<close>\<close>

definition timestamp :: "string \<Rightarrow> string" where
  "timestamp t = take 19 (map (\<lambda>c. if c = CHR '':'' \<or> c = CHR ''.'' then CHR ''-'' else c) t)"

text \<open>
  \<open>saveImage\<close> reads \<open>image\<close>, \<open>mode\<close>, \<open>autoSave\<close> and \<open>defaultPath\<close> from the render it
  was created in (\<open>c\<close>) and updates the current state (\<open>s\<close>). A call from a button uses
  the current render; the call inside \<open>confirmCrop\<close> uses the render \<open>confirmCrop\<close> ran in.
\<close>

definition saveImage_in :: "app \<Rightarrow> env \<Rightarrow> b64 option \<Rightarrow> app \<Rightarrow> app" where
  "saveImage_in c e imgData s =
     (let dataToSave = (if truthy_b64 imgData then imgData else image c) in
      case dataToSave of
        None \<Rightarrow> s
      | Some d \<Rightarrow>
          if \<not> truthy_b64 (Some d) then s
          else
            let filename = ''screenshot_'' @ mode_str (mode c) @ ''_'' @ timestamp (now_iso e) @ ''.png'';
                chosen = (if autoSave c \<and> truthy_str (defaultPath c)
                          then Inr (Some (the (defaultPath c) @ ''/'' @ filename))
                          else save_dialog e)
            in (case chosen of
                  Inl err \<Rightarrow> s\<lparr>status := ''Save Error: '' @ err\<rparr>
                | Inr path \<Rightarrow>
                    if truthy_str path then
                      (let s1 = s\<lparr>effects := effects s @ [InvokeSaveImage (the path) d]\<rparr> in
                       case save_image e of
                         Some err \<Rightarrow> s1\<lparr>status := ''Save Error: '' @ err\<rparr>
                       | None \<Rightarrow> s1\<lparr>status := ''Saved to '' @ the path\<rparr>)
                    else s))"

definition saveImage :: "env \<Rightarrow> b64 option \<Rightarrow> app \<Rightarrow> app" where
  "saveImage e imgData s = saveImage_in s e imgData s"

text \<open>\<open>saveVideo\<close> is called from a recorder's \<open>onstop\<close> closure; \<open>asave\<close> and \<open>dp\<close> are
  the \<open>autoSave\<close> and \<open>defaultPath\<close> that closure sees.\<close>

definition saveVideo_in :: "bool \<Rightarrow> string option \<Rightarrow> env \<Rightarrow> nat list \<Rightarrow> app \<Rightarrow> app" where
  "saveVideo_in asave dp e bytes s =
     (let filename = ''recording_'' @ timestamp (now_iso e) @ ''.webm'';
          chosen = (if asave \<and> truthy_str dp
                    then Inr (Some (the dp @ ''/'' @ filename))
                    else save_dialog e)
      in case chosen of
           Inl err \<Rightarrow> s\<lparr>status := ''Save Video Error: '' @ err\<rparr>
         | Inr path \<Rightarrow>
             if truthy_str path then
               (let s1 = s\<lparr>effects := effects s @ [InvokeSaveVideo (the path) bytes]\<rparr> in
                case save_video e of
                  Some err \<Rightarrow> s1\<lparr>status := ''Save Video Error: '' @ err\<rparr>
                | None \<Rightarrow> s1\<lparr>status := ''Video saved to '' @ the path\<rparr>)
             else s)"

definition saveVideo :: "env \<Rightarrow> nat list \<Rightarrow> app \<Rightarrow> app" where
  "saveVideo e bytes s = saveVideo_in (autoSave s) (defaultPath s) e bytes s"

section \<open>App.tsx: recording\<close>

text \<open>
  \<open>startRecording\<close>: the handle of the new recorder is its index in \<open>recorders\<close>. Nothing
  in the function looks at \<open>isRecording\<close> or at the recorder already referenced.
\<close>

definition startRecording :: "env \<Rightarrow> app \<Rightarrow> app" where
  "startRecording e s =
     (case getDisplayMedia e of
        Inl err \<Rightarrow> s\<lparr>status := ''Recording Error: '' @ err\<rparr>
      | Inr stream \<Rightarrow>
          (case newMediaRecorder e of
             Some err \<Rightarrow> s\<lparr>status := ''Recording Error: '' @ err\<rparr>
           | None \<Rightarrow>
               let h = length (recorders s);
                   r = \<lparr> r_stream = stream, r_state = Recording \<rparr>
               in s\<lparr> mediaRecorderRef := Some h,
                      recordedChunksRef := [],
                      recorders := recorders s @ [r],
                      effects := effects s @ [RecorderStart h],
                      isRecording := True,
                      status := ''Recording...'' \<rparr>))"

text \<open>\<open>stopRecording\<close>: \<open>stop()\<close> is requested from the referenced recorder, which
  becomes inactive. The recorder's \<open>ondataavailable\<close> and \<open>onstop\<close> handlers run later,
  on the browser's events, and are not part of this development.\<close>

definition stopRecording :: "app \<Rightarrow> app" where
  "stopRecording s =
     (case mediaRecorderRef s of
        None \<Rightarrow> s
      | Some h \<Rightarrow>
          if isRecording s then
            s\<lparr> effects := effects s @ [RecorderStop h],
               recorders := (if h < length (recorders s)
                             then (recorders s)[h := (recorders s ! h)\<lparr>r_state := Inactive\<rparr>]
                             else recorders s) \<rparr>
          else s)"

section \<open>App.tsx: sources and mode\<close>

definition fetchWindows :: "env \<Rightarrow> app \<Rightarrow> app" where
  "fetchWindows e s =
     (let s0 = s\<lparr>effects := effects s @ [InvokeGetWindows]\<rparr>
      in case get_windows e of
           Inl err \<Rightarrow> s0\<lparr>status := ''Error fetching windows: '' @ err\<rparr>
         | Inr wins \<Rightarrow>
             (case wins of
                [] \<Rightarrow> s0\<lparr>windows := wins\<rparr>
              | w # _ \<Rightarrow>
                  if \<not> truthy_id (selectedWindowId s)
                  then s0\<lparr>windows := wins, selectedWindowId := Some (w_id w)\<rparr>
                  else s0\<lparr>windows := wins\<rparr>))"

definition fetchMonitors :: "env \<Rightarrow> app \<Rightarrow> app" where
  "fetchMonitors e s =
     (let s0 = s\<lparr>effects := effects s @ [InvokeGetMonitors]\<rparr>
      in case get_monitors e of
           Inl err \<Rightarrow> s0\<lparr>status := ''Error fetching monitors: '' @ err\<rparr>
         | Inr mons \<Rightarrow>
             (case mons of
                [] \<Rightarrow> s0\<lparr>monitors := mons\<rparr>
              | m # _ \<Rightarrow>
                  if \<not> truthy_id (selectedMonitorId s)
                  then s0\<lparr>monitors := mons,
                          selectedMonitorId :=
                            Some (case find m_is_primary mons of
                                    Some p \<Rightarrow> m_id p | None \<Rightarrow> m_id m)\<rparr>
                  else s0\<lparr>monitors := mons\<rparr>))"

text \<open>
  A mode radio button calls \<open>setMode\<close>; when the value of \<open>mode\<close> changes, the effect
  on \<open>[mode]\<close> (lines 52-58) runs after the render and fetches the sources again.
\<close>

definition setMode :: "env \<Rightarrow> Mode \<Rightarrow> app \<Rightarrow> app" where
  "setMode e m s =
     (if m = mode s then s
      else let s1 = s\<lparr>mode := m\<rparr>
           in if m = Window then fetchWindows e s1 else fetchMonitors e s1)"

section \<open>App.tsx: capture and crop\<close>

definition capture :: "env \<Rightarrow> app \<Rightarrow> app" where
  "capture e s =
     (let call = (if mode s = Window \<and> truthy_id (selectedWindowId s)
                  then InvokeCaptureWindow (the (selectedWindowId s))
                  else InvokeCaptureScreen (selectedMonitorId s));
          s0 = s\<lparr>loading := True, status := ''Capturing...'', effects := effects s @ [call]\<rparr>;
          answer = (if mode s = Window \<and> truthy_id (selectedWindowId s)
                    then capture_window e (the (selectedWindowId s))
                    else capture_screen e (selectedMonitorId s))
      in case answer of
           Inl err \<Rightarrow> s0\<lparr>status := ''Error: '' @ err, loading := False\<rparr>
         | Inr result \<Rightarrow>
             let s1 = (if mode s = Window \<and> truthy_id (selectedWindowId s)
                       then s0\<lparr>image := Some (Data result), originalImage := None\<rparr>
                       else if mode s = Area
                       then s0\<lparr>originalImage := Some result, image := None,
                               status := ''Select area to crop''\<rparr>
                       else s0\<lparr>image := Some (Data result), originalImage := None\<rparr>)
             in if mode s \<noteq> Area then
                  (let s2 = s1\<lparr>status := ''Captured!'', loading := False\<rparr>
                   in if autoSave s then saveImage_in s e (Some (Data result)) s2 else s2)
                else s1\<lparr>loading := False\<rparr>)"

text \<open>
  The crop source \<open>img\<close> is rendered, and \<open>imgRef.current\<close> set, exactly while
  \<open>originalImage && mode === "area"\<close> holds (lines 435-439); its sizes come from layout.
\<close>

definition imgRef :: "env \<Rightarrow> app \<Rightarrow> img_element option" where
  "imgRef e s =
     (if truthy_str (originalImage s) \<and> mode s = Area then Some (img_layout e) else None)"

text \<open>
  Assigning a number to \<open>canvas.width\<close> converts it to an unsigned 32-bit integer
  (non-finite values give 0, finite ones are truncated and wrapped); a result above
  2147483647 is replaced by the attribute's default (300 for width, 150 for height).
\<close>

definition to_uint32 :: "jsnum \<Rightarrow> int" where
  "to_uint32 x =
     (case x of
        Fin r \<Rightarrow> (if 0 \<le> r then \<lfloor>r\<rfloor> else \<lceil>r\<rceil>) mod 4294967296
      | _ \<Rightarrow> 0)"

definition canvas_dim :: "nat \<Rightarrow> jsnum \<Rightarrow> nat" where
  "canvas_dim dflt x = (let n = to_uint32 x in if n \<le> 2147483647 then nat n else dflt)"

text \<open>
  The nine-argument \<open>drawImage\<close> with destination origin (0, 0): it returns without
  painting when an argument is infinite or NaN, or when the source width or height is
  zero. \<open>toDataURL\<close> of a canvas without pixels is \<open>"data:,"\<close>, whose part after the
  comma is the empty string.
\<close>

fun drawImage :: "string \<Rightarrow> jsnum \<Rightarrow> jsnum \<Rightarrow> jsnum \<Rightarrow> jsnum \<Rightarrow> nat \<Rightarrow> nat \<Rightarrow> drawop option" where
  "drawImage src (Fin sx) (Fin sy) (Fin sw) (Fin sh) dw dh =
     (if sw = 0 \<or> sh = 0 then None
      else Some \<lparr> d_src = src, d_sx = sx, d_sy = sy, d_sw = sw, d_sh = sh,
                  d_dw = dw, d_dh = dh \<rparr>)"
| "drawImage src _ _ _ _ dw dh = None"

definition toDataURL :: "nat \<Rightarrow> nat \<Rightarrow> drawop option \<Rightarrow> b64" where
  "toDataURL cw ch painted = (if cw = 0 \<or> ch = 0 then Data [] else CanvasData cw ch painted)"

definition confirmCrop :: "env \<Rightarrow> app \<Rightarrow> app" where
  "confirmCrop e s =
     (case (completedCrop s, imgRef e s) of
        (Some cc, Some el) \<Rightarrow>
          if truthy_str (originalImage s) then
            let scaleX = js_div (Fin (of_nat (naturalWidth el))) (Fin (of_nat (el_width el)));
                scaleY = js_div (Fin (of_nat (naturalHeight el))) (Fin (of_nat (el_height el)));
                cw = canvas_dim 300 (js_mul (Fin (c_width cc)) scaleX);
                ch = canvas_dim 150 (js_mul (Fin (c_height cc)) scaleY);
                painted = drawImage (the (originalImage s))
                            (js_mul (Fin (c_x cc)) scaleX) (js_mul (Fin (c_y cc)) scaleY)
                            (js_mul (Fin (c_width cc)) scaleX) (js_mul (Fin (c_height cc)) scaleY)
                            cw ch;
                base64 = toDataURL cw ch painted;
                s1 = s\<lparr>image := Some base64, originalImage := None, status := ''Cropped!''\<rparr>
            in if autoSave s then saveImage_in s e (Some base64) s1 else s1
          else s
      | _ \<Rightarrow> s)"

section \<open>App.tsx: the rendered controls\<close>

text \<open>
  The buttons of lines 411-442 that can be clicked in a state: the record row shows
  either Start or Stop; otherwise Capture and, when an image is held, Save Image, both
  disabled while loading; Confirm Crop stands next to the crop source.
\<close>

text \<open>The preview of lines 444-448 shows the held image outside record mode.\<close>

definition preview :: "app \<Rightarrow> b64 option" where
  "preview s = (if truthy_b64 (image s) \<and> mode s \<noteq> Record then image s else None)"

datatype button = StartRecordingBtn | StopRecordingBtn | CaptureBtn | SaveImageBtn | ConfirmCropBtn

definition buttons :: "app \<Rightarrow> button list" where
  "buttons s =
     (if mode s = Record
      then (if \<not> isRecording s then [StartRecordingBtn] else [StopRecordingBtn])
      else (if loading s then []
            else CaptureBtn # (if truthy_b64 (image s) then [SaveImageBtn] else [])))
     @ (if truthy_str (originalImage s) \<and> mode s = Area then [ConfirmCropBtn] else [])"

fun handler :: "button \<Rightarrow> env \<Rightarrow> app \<Rightarrow> app" where
  "handler StartRecordingBtn e s = startRecording e s"
| "handler StopRecordingBtn e s = stopRecording s"
| "handler CaptureBtn e s = capture e s"
| "handler SaveImageBtn e s = saveImage e None s"
| "handler ConfirmCropBtn e s = confirmCrop e s"

definition click :: "env \<Rightarrow> button \<Rightarrow> app \<Rightarrow> app" where
  "click e b s = (if b \<in> set (buttons s) then handler b e s else s)"

text \<open>The spec's rectangle mapping, in its own words: each coordinate is multiplied by
  \<open>nativeSize.width / displaySize.width\<close> or by the analogous height ratio.\<close>

definition toNativeRect ::
  "Crop \<Rightarrow> nat \<times> nat \<Rightarrow> nat \<times> nat \<Rightarrow> jsnum \<times> jsnum \<times> jsnum \<times> jsnum" where
  "toNativeRect r displaySize nativeSize =
     (let fx = js_div (Fin (of_nat (fst nativeSize))) (Fin (of_nat (fst displaySize)));
          fy = js_div (Fin (of_nat (snd nativeSize))) (Fin (of_nat (snd displaySize)))
      in (js_mul (Fin (c_x r)) fx, js_mul (Fin (c_y r)) fy,
          js_mul (Fin (c_width r)) fx, js_mul (Fin (c_height r)) fy))"

text \<open>Concrete collaborators and states used to run the definitions.\<close>

definition env0 :: env where
  "env0 = \<lparr> get_windows = Inr [], get_monitors = Inr [],
            capture_screen = (\<lambda>_. Inr ''iVBORw0KGgo=''),
            capture_window = (\<lambda>_. Inr ''iVBORw0KGgo=''),
            save_dialog = Inr (Some ''/tmp/shot.png''),
            save_image = None, save_video = None,
            getDisplayMedia = Inr 7, newMediaRecorder = None,
            now_iso = ''2026-01-02T03:04:05.678Z'',
            img_layout = \<lparr> naturalWidth = 1920, naturalHeight = 1080,
                           el_width = 960, el_height = 540 \<rparr> \<rparr>"

definition env_cancel :: env where
  "env_cancel = env0\<lparr>save_dialog := Inr None\<rparr>"

definition held_app :: app where
  "held_app = initial_app\<lparr>image := Some (Data ''iVBORw0KGgo='')\<rparr>"

definition cropping_app :: app where
  "cropping_app = initial_app\<lparr> mode := Area, originalImage := Some ''iVBORw0KGgo='',
      completedCrop := Some \<lparr> c_unit = Px, c_x = 100, c_y = 50, c_width = 400, c_height = 300 \<rparr> \<rparr>"

definition recording_app :: app where
  "recording_app = startRecording env0 (initial_app\<lparr>mode := Record\<rparr>)"

section \<open>ImageEditor.tsx: canvas bitmaps and compositing\<close>

text \<open>
  A pixel is premultiplied RGBA with channels between 0 and 1, kept as exact rationals
  (the 8-bit quantisation of a real canvas is not modelled). A bitmap has a size and a
  colour for each position; positions outside the size are never read.
\<close>

type_synonym rgba = "rat \<times> rat \<times> rat \<times> rat"

definition transparent :: rgba where
  "transparent = (0, 0, 0, 0)"

fun alpha :: "rgba \<Rightarrow> rat" where
  "alpha (r, g, b, a) = a"

fun scale_px :: "rat \<Rightarrow> rgba \<Rightarrow> rgba" where
  "scale_px k (r, g, b, a) = (k * r, k * g, k * b, k * a)"

fun add_px :: "rgba \<Rightarrow> rgba \<Rightarrow> rgba" where
  "add_px (r, g, b, a) (r', g', b', a') = (r + r', g + g', b + b', a + a')"

datatype composite_op = SourceOver | DestinationOut

text \<open>The two \<open>globalCompositeOperation\<close> values the editor uses, on premultiplied
  colours: source-over keeps the source and what of the destination it does not cover;
  destination-out keeps only what of the destination the source does not cover.\<close>

fun composite :: "composite_op \<Rightarrow> rgba \<Rightarrow> rgba \<Rightarrow> rgba" where
  "composite SourceOver src dst = add_px src (scale_px (1 - alpha src) dst)"
| "composite DestinationOut src dst = scale_px (1 - alpha src) dst"

record bitmap =
  bm_width :: nat
  bm_height :: nat
  bm_px :: "nat \<Rightarrow> nat \<Rightarrow> rgba"

definition pixel :: "'a bitmap_scheme \<Rightarrow> nat \<Rightarrow> nat \<Rightarrow> rgba" where
  "pixel b x y = (if x < bm_width b \<and> y < bm_height b then bm_px b x y else transparent)"

text \<open>
  The annotation canvas: its bitmap together with the state of its 2D context. The path
  is a list of subpaths, each with its closed flag. A stroke style is red, green and blue
  from 0 to 255 and an alpha.
\<close>

type_synonym point = "rat \<times> rat"
type_synonym subpath = "bool \<times> point list"
type_synonym style = "nat \<times> nat \<times> nat \<times> rat"

record canvas = bitmap +
  ctx_lineWidth :: rat
  ctx_op :: composite_op
  ctx_strokeStyle :: style
  ctx_path :: "subpath list"

text \<open>A rasteriser says how much of pixel \<open>(x, y)\<close> a stroked path of a given line
  width covers. It belongs to the browser; every operation that strokes takes it as an
  argument, and what it answers is cut to the range from 0 to 1.\<close>

type_synonym rasteriser = "rat \<Rightarrow> subpath list \<Rightarrow> nat \<Rightarrow> nat \<Rightarrow> rat"

definition coverage :: "rasteriser \<Rightarrow> canvas \<Rightarrow> nat \<Rightarrow> nat \<Rightarrow> rat" where
  "coverage raster c x y = min 1 (max 0 (raster (ctx_lineWidth c) (ctx_path c) x y))"

fun paint :: "style \<Rightarrow> rat \<Rightarrow> rgba" where
  "paint (r, g, b, a) k =
     (let al = min 1 (max 0 a) * k
      in (of_nat r / 255 * al, of_nat g / 255 * al, of_nat b / 255 * al, al))"

definition beginPath :: "canvas \<Rightarrow> canvas" where
  "beginPath c = c\<lparr>ctx_path := []\<rparr>"

text \<open>\<open>moveTo\<close> and \<open>lineTo\<close> return at once when a coordinate is infinite or NaN.\<close>

fun moveTo :: "jsnum \<Rightarrow> jsnum \<Rightarrow> canvas \<Rightarrow> canvas" where
  "moveTo (Fin x) (Fin y) c = c\<lparr>ctx_path := ctx_path c @ [(False, [(x, y)])]\<rparr>"
| "moveTo _ _ c = c"

fun lineTo :: "jsnum \<Rightarrow> jsnum \<Rightarrow> canvas \<Rightarrow> canvas" where
  "lineTo (Fin x) (Fin y) c =
     (case rev (ctx_path c) of
        [] \<Rightarrow> c\<lparr>ctx_path := [(False, [(x, y)])]\<rparr>
      | (cl, pts) # earlier \<Rightarrow> c\<lparr>ctx_path := rev earlier @ [(cl, pts @ [(x, y)])]\<rparr>)"
| "lineTo _ _ c = c"

definition closePath :: "canvas \<Rightarrow> canvas" where
  "closePath c =
     (case rev (ctx_path c) of
        [] \<Rightarrow> c
      | (cl, pts) # earlier \<Rightarrow>
          c\<lparr>ctx_path := rev earlier @ [(True, pts), (False, take 1 pts)]\<rparr>)"

definition stroke :: "rasteriser \<Rightarrow> canvas \<Rightarrow> canvas" where
  "stroke raster c =
     c\<lparr>bm_px := (\<lambda>x y. if x < bm_width c \<and> y < bm_height c
                        then composite (ctx_op c)
                               (paint (ctx_strokeStyle c) (coverage raster c x y)) (bm_px c x y)
                        else bm_px c x y)\<rparr>"

definition clearRect :: "nat \<Rightarrow> nat \<Rightarrow> nat \<Rightarrow> nat \<Rightarrow> canvas \<Rightarrow> canvas" where
  "clearRect x0 y0 w h c =
     c\<lparr>bm_px := (\<lambda>x y. if x0 \<le> x \<and> x < x0 + w \<and> y0 \<le> y \<and> y < y0 + h
                        then transparent else bm_px c x y)\<rparr>"

text \<open>\<open>drawImage(source, 0, 0)\<close> onto a bitmap, with the default source-over.\<close>

definition drawOnto :: "'a bitmap_scheme \<Rightarrow> bitmap \<Rightarrow> bitmap" where
  "drawOnto src dst =
     dst\<lparr>bm_px := (\<lambda>x y. if x < bm_width dst \<and> y < bm_height dst
                             \<and> x < bm_width src \<and> y < bm_height src
                          then composite SourceOver (bm_px src x y) (bm_px dst x y)
                          else bm_px dst x y)\<rparr>"

definition blank :: "nat \<Rightarrow> nat \<Rightarrow> bitmap" where
  "blank w h = \<lparr> bm_width = w, bm_height = h, bm_px = (\<lambda>x y. transparent) \<rparr>"

section \<open>ImageEditor.tsx: the component\<close>

datatype tool = Pen | Eraser

record editor =
  imageData :: string
  isDrawing :: bool
  tool :: tool
  color :: string
  opacity :: rat
  lineWidth :: nat
  dimensions :: "nat \<times> nat"
  canvasRef :: "canvas option"

text \<open>A mouse event carries one client position, a touch event the list of its touches;
  \<open>rect\<close> is what \<open>getBoundingClientRect\<close> answers for the canvas.\<close>

datatype pointer_event = MouseEv rat rat | TouchEv "(rat \<times> rat) list"

record dom_rect =
  rect_left :: rat
  rect_top :: rat
  rect_width :: rat
  rect_height :: rat

datatype js_error = TypeError

text \<open>\<open>getCoordinates\<close>: reading \<open>e.touches[0].clientX\<close> of a touch event without touches
  throws a TypeError; the two divisions by the rendered size are carried out as they are.\<close>

definition getCoordinates ::
  "pointer_event \<Rightarrow> canvas \<Rightarrow> dom_rect \<Rightarrow> js_error + (jsnum \<times> jsnum)" where
  "getCoordinates ev c rect =
     (case (case ev of
              TouchEv [] \<Rightarrow> Inl TypeError
            | TouchEv (t # _) \<Rightarrow> Inr t
            | MouseEv cx cy \<Rightarrow> Inr (cx, cy)) of
        Inl err \<Rightarrow> Inl err
      | Inr (clientX, clientY) \<Rightarrow>
          let scaleX = js_div (Fin (of_nat (bm_width c))) (Fin (rect_width rect));
              scaleY = js_div (Fin (of_nat (bm_height c))) (Fin (rect_height rect))
          in Inr (js_mul (js_sub (Fin clientX) (Fin (rect_left rect))) scaleX,
                  js_mul (js_sub (Fin clientY) (Fin (rect_top rect))) scaleY))"

text \<open>
  \<open>parseInt(text, 16)\<close> on a piece of the colour string: the value of the longest
  prefix of hexadecimal digits, NaN (\<open>None\<close>) when there is none. The colour input only
  produces \<open>#rrggbb\<close>, so signs, blanks and a \<open>0x\<close> prefix are left out.
\<close>

definition hex_digit :: "char \<Rightarrow> nat option" where
  "hex_digit ch =
     (let n = of_char ch :: nat in
      if 48 \<le> n \<and> n \<le> 57 then Some (n - 48)
      else if 97 \<le> n \<and> n \<le> 102 then Some (n - 87)
      else if 65 \<le> n \<and> n \<le> 70 then Some (n - 55)
      else None)"

fun hex_prefix :: "nat \<Rightarrow> string \<Rightarrow> nat" where
  "hex_prefix acc [] = acc"
| "hex_prefix acc (ch # rest) =
     (case hex_digit ch of None \<Rightarrow> acc | Some d \<Rightarrow> hex_prefix (16 * acc + d) rest)"

definition parseInt16 :: "string \<Rightarrow> nat option" where
  "parseInt16 txt =
     (case txt of
        [] \<Rightarrow> None
      | ch # _ \<Rightarrow> (case hex_digit ch of None \<Rightarrow> None | Some _ \<Rightarrow> Some (hex_prefix 0 txt)))"

definition slice :: "nat \<Rightarrow> nat \<Rightarrow> string \<Rightarrow> string" where
  "slice a b txt = take (b - a) (drop a txt)"

text \<open>Assigning \<open>ctx.lineWidth\<close> ignores zero; assigning \<open>ctx.strokeStyle\<close> ignores a string
  that is not a colour, which \<open>rgba(NaN, ...)\<close> is.\<close>

definition set_lineWidth :: "nat \<Rightarrow> canvas \<Rightarrow> canvas" where
  "set_lineWidth w c = (if w = 0 then c else c\<lparr>ctx_lineWidth := of_nat w\<rparr>)"

definition pen_style :: "string \<Rightarrow> rat \<Rightarrow> canvas \<Rightarrow> canvas" where
  "pen_style col op c =
     (case (parseInt16 (slice 1 3 col), parseInt16 (slice 3 5 col), parseInt16 (slice 5 7 col)) of
        (Some r, Some g, Some b) \<Rightarrow> c\<lparr>ctx_strokeStyle := (r, g, b, op)\<rparr>
      | _ \<Rightarrow> c)"

definition startDrawing :: "pointer_event \<Rightarrow> dom_rect \<Rightarrow> editor \<Rightarrow> editor" where
  "startDrawing ev rect s =
     (case canvasRef s of
        None \<Rightarrow> s
      | Some c \<Rightarrow>
          (case getCoordinates ev c rect of
             Inl err \<Rightarrow> s\<lparr>isDrawing := True\<rparr>
           | Inr (x, y) \<Rightarrow>
               let c1 = moveTo x y (beginPath c);
                   c2 = set_lineWidth (lineWidth s) c1;
                   c3 = (if tool s = Eraser
                         then c2\<lparr>ctx_op := DestinationOut, ctx_strokeStyle := (0, 0, 0, 1)\<rparr>
                         else pen_style (color s) (opacity s) (c2\<lparr>ctx_op := SourceOver\<rparr>))
               in s\<lparr>isDrawing := True, canvasRef := Some c3\<rparr>))"

text \<open>\<open>draw\<close> runs on every pointer move: it extends the current path and strokes all
  of it again.\<close>

definition draw :: "rasteriser \<Rightarrow> pointer_event \<Rightarrow> dom_rect \<Rightarrow> editor \<Rightarrow> editor" where
  "draw raster ev rect s =
     (if \<not> isDrawing s then s
      else case canvasRef s of
             None \<Rightarrow> s
           | Some c \<Rightarrow>
               (case getCoordinates ev c rect of
                  Inl err \<Rightarrow> s
                | Inr (x, y) \<Rightarrow> s\<lparr>canvasRef := Some (stroke raster (lineTo x y c))\<rparr>))"

text \<open>The pointer moves of one gesture, handled in order; each comes with the canvas
  rectangle measured at that moment.\<close>

definition draws :: "rasteriser \<Rightarrow> (pointer_event \<times> dom_rect) list \<Rightarrow> editor \<Rightarrow> editor" where
  "draws raster moves s = fold (\<lambda>m t. draw raster (fst m) (snd m) t) moves s"

definition stopDrawing :: "editor \<Rightarrow> editor" where
  "stopDrawing s =
     (if \<not> isDrawing s then s
      else s\<lparr>isDrawing := False, canvasRef := map_option closePath (canvasRef s)\<rparr>)"

definition clearCanvas :: "editor \<Rightarrow> editor" where
  "clearCanvas s =
     (case canvasRef s of
        None \<Rightarrow> s
      | Some c \<Rightarrow> s\<lparr>canvasRef := Some (clearRect 0 0 (bm_width c) (bm_height c) c)\<rparr>)"

text \<open>
  \<open>getMergedImage\<close>. \<open>decode\<close> is the browser's PNG decoder (\<open>None\<close>: the data does not
  load, \<open>onload\<close> never runs). The export canvas has the size in \<open>dimensions\<close>; the base
  image is drawn first, the annotation canvas over it. Drawing a canvas without pixels
  throws inside \<open>onload\<close>. In both cases the promise is never resolved, which is \<open>None\<close>.
  \<open>mergedCanvas\<close> is the export canvas when \<open>toDataURL\<close> is reached.
\<close>

definition mergedCanvas :: "(string \<Rightarrow> bitmap option) \<Rightarrow> editor \<Rightarrow> bitmap option" where
  "mergedCanvas decode s =
     (case decode (imageData s) of
        None \<Rightarrow> None
      | Some img \<Rightarrow>
          let exportCanvas = drawOnto img (blank (fst (dimensions s)) (snd (dimensions s)))
          in (case canvasRef s of
                None \<Rightarrow> Some exportCanvas
              | Some c \<Rightarrow>
                  if bm_width c = 0 \<or> bm_height c = 0 then None
                  else Some (drawOnto c exportCanvas)))"

text \<open>\<open>encode\<close> is the browser's PNG and base64 encoder for a canvas that has pixels.
  The component's state is handed back as it was: nothing in the function writes to it.\<close>

definition getMergedImage ::
  "(string \<Rightarrow> bitmap option) \<Rightarrow> (bitmap \<Rightarrow> string) \<Rightarrow> editor \<Rightarrow> string option \<times> editor" where
  "getMergedImage decode encode s =
     (map_option (\<lambda>b. if bm_width b = 0 \<or> bm_height b = 0 then [] else encode b)
        (mergedCanvas decode s), s)"

text \<open>The component once its image has loaded: the canvas has the image's size, no
  pixels painted and a fresh context.\<close>

definition new_canvas :: "nat \<Rightarrow> nat \<Rightarrow> canvas" where
  "new_canvas w h = \<lparr> bm_width = w, bm_height = h, bm_px = (\<lambda>x y. transparent),
       ctx_lineWidth = 1, ctx_op = SourceOver, ctx_strokeStyle = (0, 0, 0, 1), ctx_path = [] \<rparr>"

definition loaded_editor :: "(string \<Rightarrow> bitmap option) \<Rightarrow> string \<Rightarrow> editor" where
  "loaded_editor decode dat =
     (let dims = (case decode dat of None \<Rightarrow> (0, 0) | Some img \<Rightarrow> (bm_width img, bm_height img))
      in \<lparr> imageData = dat, isDrawing = False, tool = Pen, color = ''#ff0000'', opacity = 1,
            lineWidth = 5, dimensions = dims, canvasRef = Some (new_canvas (fst dims) (snd dims)) \<rparr>)"

text \<open>Concrete collaborators for running the editor: a decoder that knows one 4x4
  opaque white image, an encoder that writes the size and the alpha of the first pixel,
  a rasteriser that covers exactly the pixels whose coordinates are points of the path,
  and a canvas rendered at its own size.\<close>

definition white4 :: bitmap where
  "white4 = \<lparr> bm_width = 4, bm_height = 4, bm_px = (\<lambda>x y. (1, 1, 1, 1)) \<rparr>"

definition decode0 :: "string \<Rightarrow> bitmap option" where
  "decode0 dat = (if dat = ''white4'' then Some white4 else None)"

definition encode0 :: "bitmap \<Rightarrow> string" where
  "encode0 b = replicate (bm_width b) CHR ''w'' @ replicate (bm_height b) CHR ''h''
                 @ (if alpha (bm_px b 0 0) = 0 then ''t'' else ''o'')"

definition raster0 :: rasteriser where
  "raster0 lw p x y = (if (of_nat x, of_nat y) \<in> set (concat (map snd p)) then 1 else 0)"

definition rect4 :: dom_rect where
  "rect4 = \<lparr> rect_left = 0, rect_top = 0, rect_width = 4, rect_height = 4 \<rparr>"

definition rect_collapsed :: dom_rect where
  "rect_collapsed = \<lparr> rect_left = 0, rect_top = 0, rect_width = 0, rect_height = 0 \<rparr>"

definition editor0 :: editor where
  "editor0 = loaded_editor decode0 ''white4''"

text \<open>Editor states used to run the definitions: a pen stroke from (0, 0) to (1, 1)
  that has ended, an eraser stroke over the same two points, and a clear in the middle of
  a pen stroke.\<close>

definition penned0 :: editor where
  "penned0 = stopDrawing (draw raster0 (MouseEv 1 1) rect4 (startDrawing (MouseEv 0 0) rect4 editor0))"

definition erased0 :: editor where
  "erased0 = draw raster0 (MouseEv 1 1) rect4
               (startDrawing (MouseEv 0 0) rect4 (penned0\<lparr>tool := Eraser\<rparr>))"

definition midclear0 :: editor where
  "midclear0 = clearCanvas (draw raster0 (MouseEv 1 1) rect4 (startDrawing (MouseEv 0 0) rect4 editor0))"

definition env_collapsed :: env where
  "env_collapsed = env0\<lparr>img_layout := \<lparr> naturalWidth = 1920, naturalHeight = 1080,
                           el_width = 0, el_height = 0 \<rparr>\<rparr>"

definition erased_twice0 :: editor where
  "erased_twice0 = draws raster0 [(MouseEv 1 1, rect4), (TouchEv [], rect4), (MouseEv 2 2, rect4)]
                     (startDrawing (MouseEv 0 0) rect4 (penned0\<lparr>tool := Eraser\<rparr>))"

text \<open>Two properties of an editor state used in the proofs about erasing: a stroke with
  the eraser's settings is in progress on a canvas of the given size, and the layer is
  transparent at a position.\<close>

definition erasing :: "nat \<Rightarrow> nat \<Rightarrow> editor \<Rightarrow> bool" where
  "erasing w h t =
     (isDrawing t \<and>
      (case canvasRef t of
         None \<Rightarrow> False
       | Some c \<Rightarrow> ctx_op c = DestinationOut \<and> ctx_strokeStyle c = (0, 0, 0, 1)
                   \<and> bm_width c = w \<and> bm_height c = h))"

definition clear_at :: "nat \<Rightarrow> nat \<Rightarrow> editor \<Rightarrow> bool" where
  "clear_at x y t = (case canvasRef t of None \<Rightarrow> False | Some c \<Rightarrow> bm_px c x y = transparent)"

text \<open>A recording in progress with one chunk already buffered, and a 1920x1080 image
  laid out at 704x396 with the whole image selected.\<close>

definition recording_chunk_app :: app where
  "recording_chunk_app = recording_app\<lparr>recordedChunksRef := [[26, 69, 223, 163]]\<rparr>"

definition env_narrow :: env where
  "env_narrow = env0\<lparr>img_layout := \<lparr> naturalWidth = 1920, naturalHeight = 1080,
                           el_width = 704, el_height = 396 \<rparr>\<rparr>"

definition full_crop_app :: app where
  "full_crop_app = cropping_app\<lparr>completedCrop :=
      Some \<lparr> c_unit = Px, c_x = 0, c_y = 0, c_width = 704, c_height = 396 \<rparr>\<rparr>"

definition zero_area_app :: app where
  "zero_area_app = initial_app\<lparr> mode := Area, originalImage := Some ''iVBORw0KGgo='',
      completedCrop := Some \<lparr> c_unit = Px, c_x = 100, c_y = 50, c_width = 0, c_height = 0 \<rparr> \<rparr>"

section \<open>Lemmas on saving\<close>

lemma image_saveImage_in: "image (saveImage_in c e d s) = image s"
  by (simp add: saveImage_in_def Let_def split: option.splits sum.splits)

lemma originalImage_saveImage_in: "originalImage (saveImage_in c e d s) = originalImage s"
  by (simp add: saveImage_in_def Let_def split: option.splits sum.splits)

lemma saveImage_in_cancelled:
  "save_dialog e = Inr None \<Longrightarrow> \<not> (autoSave c \<and> truthy_str (defaultPath c)) \<Longrightarrow>
   saveImage_in c e d s = s"
  by (auto simp: saveImage_in_def Let_def split: option.splits)

lemma saveVideo_in_cancelled:
  "save_dialog e = Inr None \<Longrightarrow> \<not> (a \<and> truthy_str dp) \<Longrightarrow> saveVideo_in a dp e bytes s = s"
  by (auto simp: saveVideo_in_def Let_def)

section \<open>Stopping without an active recording\<close>

text \<open>
  Claim C10. In every state in which no recording is active, that is, the recorder
  reference is empty or the recording flag is false, \<open>stopRecording\<close> does nothing: it
  requests no stop from any recorder and returns the state it was given.
\<close>

theorem stopRecording_noop:
  "mediaRecorderRef s = None \<or> \<not> isRecording s \<Longrightarrow> stopRecording s = s"
  by (auto simp: stopRecording_def split: option.splits)

theorem stopRecording_noop_witness:
  "(mediaRecorderRef (initial_app\<lparr>mediaRecorderRef := Some 0\<rparr>) = None
      \<or> \<not> isRecording (initial_app\<lparr>mediaRecorderRef := Some 0\<rparr>))
   \<and> stopRecording (initial_app\<lparr>mediaRecorderRef := Some 0\<rparr>)
       = initial_app\<lparr>mediaRecorderRef := Some 0\<rparr>"
  using stopRecording_noop [of "initial_app\<lparr>mediaRecorderRef := Some 0\<rparr>"]
  by (simp add: initial_app_def)

section \<open>Cancelling the destination chooser\<close>

text \<open>
  Claim C8. Whenever an export consults the destination chooser (that is, unless auto-save
  is on with a default folder) and the chooser answers cancelled, only the export is
  abandoned: \<open>saveImage\<close> returns the state it was given, so no persistence call is issued
  and the held image is still there for another attempt; \<open>saveVideo\<close> likewise issues no
  call and returns its state as it was.
\<close>

theorem export_cancelled_keeps_artifact:
  assumes "save_dialog e = Inr None"
    and "\<not> (autoSave s \<and> truthy_str (defaultPath s))"
  shows "saveImage e imgData s = s \<and> saveVideo e bytes s = s
         \<and> effects (saveImage e imgData s) = effects s
         \<and> image (saveImage e imgData s) = image s
         \<and> effects (saveVideo e bytes s) = effects s
         \<and> recordedChunksRef (saveVideo e bytes s) = recordedChunksRef s"
proof -
  have i: "saveImage e imgData s = s"
    unfolding saveImage_def using assms by (rule saveImage_in_cancelled)
  have v: "saveVideo e bytes s = s"
    unfolding saveVideo_def using assms by (rule saveVideo_in_cancelled)
  show ?thesis by (simp add: i v)
qed

theorem export_cancelled_keeps_artifact_witness:
  "save_dialog env_cancel = Inr None
   \<and> saveImage env_cancel None held_app = held_app
   \<and> image (saveImage env_cancel None held_app) = Some (Data ''iVBORw0KGgo='')
   \<and> effects (saveImage env_cancel None held_app) = []
   \<and> saveVideo env_cancel [26, 69, 223, 163] held_app = held_app"
  using export_cancelled_keeps_artifact [of env_cancel held_app None "[26, 69, 223, 163]"]
  by (simp add: env_cancel_def env0_def held_app_def initial_app_def)


section \<open>Switching the capture mode\<close>

lemma setMode_same: "m = mode s \<Longrightarrow> setMode e m s = s"
  by (simp add: setMode_def)

lemma setMode_frame:
  "setMode e m s =
     s\<lparr> mode := m,
        windows := windows (setMode e m s),
        monitors := monitors (setMode e m s),
        selectedWindowId := selectedWindowId (setMode e m s),
        selectedMonitorId := selectedMonitorId (setMode e m s),
        status := status (setMode e m s),
        effects := effects (setMode e m s) \<rparr>"
  by (simp add: setMode_def fetchWindows_def fetchMonitors_def Let_def
        split: sum.splits list.splits)

lemma setMode_window:
  assumes "Window \<noteq> mode s"
  shows "windows (setMode e Window s)
           = (case get_windows e of Inr wins \<Rightarrow> wins | Inl err \<Rightarrow> windows s)"
    and "selectedWindowId (setMode e Window s) =
           (case get_windows e of
              Inr (w # ws) \<Rightarrow> if truthy_id (selectedWindowId s) then selectedWindowId s
                              else Some (w_id w)
            | _ \<Rightarrow> selectedWindowId s)"
    and "status (setMode e Window s) =
           (case get_windows e of
              Inl err \<Rightarrow> ''Error fetching windows: '' @ err | Inr wins \<Rightarrow> status s)"
    and "monitors (setMode e Window s) = monitors s"
    and "selectedMonitorId (setMode e Window s) = selectedMonitorId s"
    and "effects (setMode e Window s) = effects s @ [InvokeGetWindows]"
  using assms
  by (simp_all add: setMode_def fetchWindows_def Let_def split: sum.splits list.splits)

lemma setMode_monitor:
  assumes "m \<noteq> mode s" "m \<noteq> Window"
  shows "monitors (setMode e m s) = (case get_monitors e of Inr mons \<Rightarrow> mons | Inl err \<Rightarrow> monitors s)"
    and "selectedMonitorId (setMode e m s) =
           (case get_monitors e of
              Inr (mo # ms) \<Rightarrow>
                if truthy_id (selectedMonitorId s) then selectedMonitorId s
                else Some (case find m_is_primary (mo # ms) of
                             Some p \<Rightarrow> m_id p | None \<Rightarrow> m_id mo)
            | _ \<Rightarrow> selectedMonitorId s)"
    and "status (setMode e m s) =
           (case get_monitors e of
              Inl err \<Rightarrow> ''Error fetching monitors: '' @ err | Inr mons \<Rightarrow> status s)"
    and "windows (setMode e m s) = windows s"
    and "selectedWindowId (setMode e m s) = selectedWindowId s"
    and "effects (setMode e m s) = effects s @ [InvokeGetMonitors]"
  using assms
  by (simp_all add: setMode_def fetchMonitors_def Let_def split: sum.splits list.splits)

lemma setMode_fields:
  "mode (setMode e m s) = m" "image (setMode e m s) = image s"
  "originalImage (setMode e m s) = originalImage s" "loading (setMode e m s) = loading s"
  "autoSave (setMode e m s) = autoSave s" "defaultPath (setMode e m s) = defaultPath s"
  by (simp_all add: setMode_def fetchWindows_def fetchMonitors_def Let_def
        split: sum.splits list.splits)

lemma setMode_rendering:
  "imgRef e' (setMode e m s) =
     (if truthy_str (originalImage s) \<and> m = Area then Some (img_layout e') else None)"
  "preview (setMode e m s) = (if truthy_b64 (image s) \<and> m \<noteq> Record then image s else None)"
  "(SaveImageBtn \<in> set (buttons (setMode e m s)))
     = (m \<noteq> Record \<and> \<not> loading s \<and> truthy_b64 (image s))"
  "(ConfirmCropBtn \<in> set (buttons (setMode e m s))) = (truthy_str (originalImage s) \<and> m = Area)"
  by (simp_all add: imgRef_def preview_def buttons_def setMode_fields)

lemma save_after_setMode:
  assumes "m \<noteq> Record" "\<not> loading s" "image s = Some d" "truthy_b64 (Some d)"
    and "\<not> (autoSave s \<and> truthy_str (defaultPath s))"
    and "save_dialog e' = Inr (Some p)" "p \<noteq> []"
  shows "effects (click e' SaveImageBtn (setMode e m s))
           = effects (setMode e m s) @ [InvokeSaveImage p d]"
proof -
  let ?t = "setMode e m s"
  have b: "SaveImageBtn \<in> set (buttons ?t)"
    using assms(1-4) by (simp add: setMode_rendering)
  have a: "\<not> (autoSave ?t \<and> truthy_str (defaultPath ?t))"
    using assms(5) by (simp add: setMode_fields)
  have "effects (saveImage e' None ?t) = effects ?t @ [InvokeSaveImage p d]"
    using assms(3,4,6,7) a
    by (auto simp: saveImage_def saveImage_in_def Let_def setMode_fields split: option.splits)
  then show ?thesis using b by (simp add: click_def)
qed

text \<open>
  Claim C1, as the code has it. Switching the capture mode changes the mode and nothing
  else but what the fetch of the sources changes: choosing the current mode again changes
  nothing at all; choosing window mode fetches the window list, any other mode the monitor
  list, with one backend call, and sets the list, the default selection when none is set,
  or the error status; the other list and selection stay. The held image, the original
  image awaiting a crop, the crop selection, the completed crop rectangle, the recording
  state and the settings are all as they were. Isolation is by rendering alone: the crop
  source and its confirm button exist only in area mode, the preview and the save button
  only outside record mode, so a save after the switch writes the image held before it.
\<close>

theorem setMode_changes_only_mode_and_sources:
  "setMode e m s =
     s\<lparr> mode := m,
        windows := windows (setMode e m s),
        monitors := monitors (setMode e m s),
        selectedWindowId := selectedWindowId (setMode e m s),
        selectedMonitorId := selectedMonitorId (setMode e m s),
        status := status (setMode e m s),
        effects := effects (setMode e m s) \<rparr>
   \<and> (m = mode s \<longrightarrow> setMode e m s = s)
   \<and> (m \<noteq> mode s \<and> m = Window \<longrightarrow>
        windows (setMode e m s) = (case get_windows e of Inr wins \<Rightarrow> wins | Inl err \<Rightarrow> windows s)
      \<and> selectedWindowId (setMode e m s) =
           (case get_windows e of
              Inr (w # ws) \<Rightarrow> if truthy_id (selectedWindowId s) then selectedWindowId s
                              else Some (w_id w)
            | _ \<Rightarrow> selectedWindowId s)
      \<and> status (setMode e m s) =
           (case get_windows e of
              Inl err \<Rightarrow> ''Error fetching windows: '' @ err | Inr wins \<Rightarrow> status s)
      \<and> monitors (setMode e m s) = monitors s
      \<and> selectedMonitorId (setMode e m s) = selectedMonitorId s
      \<and> effects (setMode e m s) = effects s @ [InvokeGetWindows])
   \<and> (m \<noteq> mode s \<and> m \<noteq> Window \<longrightarrow>
        monitors (setMode e m s) = (case get_monitors e of Inr mons \<Rightarrow> mons | Inl err \<Rightarrow> monitors s)
      \<and> selectedMonitorId (setMode e m s) =
           (case get_monitors e of
              Inr (mo # ms) \<Rightarrow>
                if truthy_id (selectedMonitorId s) then selectedMonitorId s
                else Some (case find m_is_primary (mo # ms) of
                             Some p \<Rightarrow> m_id p | None \<Rightarrow> m_id mo)
            | _ \<Rightarrow> selectedMonitorId s)
      \<and> status (setMode e m s) =
           (case get_monitors e of
              Inl err \<Rightarrow> ''Error fetching monitors: '' @ err | Inr mons \<Rightarrow> status s)
      \<and> windows (setMode e m s) = windows s
      \<and> selectedWindowId (setMode e m s) = selectedWindowId s
      \<and> effects (setMode e m s) = effects s @ [InvokeGetMonitors])
   \<and> imgRef e' (setMode e m s) =
        (if truthy_str (originalImage s) \<and> m = Area then Some (img_layout e') else None)
   \<and> preview (setMode e m s) = (if truthy_b64 (image s) \<and> m \<noteq> Record then image s else None)
   \<and> (SaveImageBtn \<in> set (buttons (setMode e m s)))
        = (m \<noteq> Record \<and> \<not> loading s \<and> truthy_b64 (image s))
   \<and> (ConfirmCropBtn \<in> set (buttons (setMode e m s)))
        = (truthy_str (originalImage s) \<and> m = Area)
   \<and> (m \<noteq> Record \<and> \<not> loading s \<and> image s = Some d \<and> truthy_b64 (Some d)
        \<and> \<not> (autoSave s \<and> truthy_str (defaultPath s))
        \<and> save_dialog e' = Inr (Some p) \<and> p \<noteq> [] \<longrightarrow>
      effects (click e' SaveImageBtn (setMode e m s))
        = effects (setMode e m s) @ [InvokeSaveImage p d])"
proof (intro conjI impI)
  show "setMode e m s =
     s\<lparr> mode := m,
        windows := windows (setMode e m s),
        monitors := monitors (setMode e m s),
        selectedWindowId := selectedWindowId (setMode e m s),
        selectedMonitorId := selectedMonitorId (setMode e m s),
        status := status (setMode e m s),
        effects := effects (setMode e m s) \<rparr>"
    by (rule setMode_frame)
qed (auto simp: setMode_same setMode_window setMode_monitor setMode_rendering
       save_after_setMode simp del: truthy_b64.simps truthy_str.simps)

theorem setMode_changes_only_mode_and_sources_witness:
  "mode (setMode env0 Record cropping_app) = Record
   \<and> Record \<noteq> mode cropping_app
   \<and> originalImage (setMode env0 Record cropping_app) = Some ''iVBORw0KGgo=''
   \<and> completedCrop (setMode env0 Record cropping_app) = completedCrop cropping_app
   \<and> effects (setMode env0 Record cropping_app) = [InvokeGetMonitors]
   \<and> imgRef env0 (setMode env0 Record cropping_app) = None
   \<and> save_dialog env0 = Inr (Some ''/tmp/shot.png'')
   \<and> effects (click env0 SaveImageBtn (setMode env0 Window held_app))
       = [InvokeGetWindows, InvokeSaveImage ''/tmp/shot.png'' (Data ''iVBORw0KGgo='')]"
proof -
  have a: "setMode env0 Record cropping_app =
             cropping_app\<lparr> mode := Record,
                windows := windows (setMode env0 Record cropping_app),
                monitors := monitors (setMode env0 Record cropping_app),
                selectedWindowId := selectedWindowId (setMode env0 Record cropping_app),
                selectedMonitorId := selectedMonitorId (setMode env0 Record cropping_app),
                status := status (setMode env0 Record cropping_app),
                effects := effects (setMode env0 Record cropping_app) \<rparr>"
    and b: "Record \<noteq> mode cropping_app \<and> Record \<noteq> Window \<longrightarrow>
              effects (setMode env0 Record cropping_app) = effects cropping_app @ [InvokeGetMonitors]"
    and c: "imgRef env0 (setMode env0 Record cropping_app) =
              (if truthy_str (originalImage cropping_app) \<and> Record = Area
               then Some (img_layout env0) else None)"
    using setMode_changes_only_mode_and_sources [of env0 Record cropping_app env0]
    by blast+
  have d: "Window \<noteq> Record \<and> \<not> loading held_app \<and> image held_app = Some (Data ''iVBORw0KGgo='')
        \<and> truthy_b64 (Some (Data ''iVBORw0KGgo=''))
        \<and> \<not> (autoSave held_app \<and> truthy_str (defaultPath held_app))
        \<and> save_dialog env0 = Inr (Some ''/tmp/shot.png'') \<and> ''/tmp/shot.png'' \<noteq> [] \<longrightarrow>
      effects (click env0 SaveImageBtn (setMode env0 Window held_app))
        = effects (setMode env0 Window held_app) @ [InvokeSaveImage ''/tmp/shot.png'' (Data ''iVBORw0KGgo='')]"
    and f: "Window \<noteq> mode held_app \<and> Window = Window \<longrightarrow>
              effects (setMode env0 Window held_app) = effects held_app @ [InvokeGetWindows]"
    using setMode_changes_only_mode_and_sources
      [of env0 Window held_app env0 "Data ''iVBORw0KGgo=''" "''/tmp/shot.png''"]
    by blast+
  have m: "mode cropping_app = Area" "originalImage cropping_app = Some ''iVBORw0KGgo=''"
      "effects cropping_app = []" "mode held_app = Fullscreen" "effects held_app = []"
      "\<not> loading held_app" "image held_app = Some (Data ''iVBORw0KGgo='')"
      "\<not> autoSave held_app" "save_dialog env0 = Inr (Some ''/tmp/shot.png'')"
    by (simp_all add: cropping_app_def held_app_def initial_app_def env0_def)
  have a1: "mode (setMode env0 Record cropping_app) = Record"
      "originalImage (setMode env0 Record cropping_app) = Some ''iVBORw0KGgo=''"
      "completedCrop (setMode env0 Record cropping_app) = completedCrop cropping_app"
    by (subst a, simp add: m)+
  show ?thesis using a1 b c d f m by simp
qed

text \<open>
  Claim C1 as stated fails: an image captured in full-screen mode is still held after
  switching to window mode, and the Save Image button then writes that very image; a
  completed crop rectangle likewise survives leaving area mode.
\<close>

theorem mode_switch_counterexample:
  "image (setMode env0 Window held_app) = Some (Data ''iVBORw0KGgo='')
   \<and> effects (click env0 SaveImageBtn (setMode env0 Window held_app))
       = [InvokeGetWindows, InvokeSaveImage ''/tmp/shot.png'' (Data ''iVBORw0KGgo='')]
   \<and> completedCrop (setMode env0 Fullscreen cropping_app)
       = Some \<lparr> c_unit = Px, c_x = 100, c_y = 50, c_width = 400, c_height = 300 \<rparr>"
  by (simp add: setMode_def fetchWindows_def fetchMonitors_def env0_def held_app_def
        cropping_app_def initial_app_def click_def buttons_def saveImage_def saveImage_in_def
        Let_def)

section \<open>Confirming a crop\<close>

lemma canvas_dim_floor:
  assumes "1 \<le> r" "r < 2147483648"
  shows "canvas_dim d (Fin r) = nat \<lfloor>r\<rfloor> \<and> nat \<lfloor>r\<rfloor> \<noteq> 0"
proof -
  have lo: "1 \<le> \<lfloor>r\<rfloor>" using assms(1) by (simp add: le_floor_iff)
  have hi: "\<lfloor>r\<rfloor> < 2147483648" using assms(2) by (simp add: floor_less_iff)
  have m: "\<lfloor>r\<rfloor> mod 4294967296 = \<lfloor>r\<rfloor>" using lo hi by simp
  have nn: "0 \<le> r" using assms(1) by simp
  show ?thesis using lo hi m nn by (simp add: canvas_dim_def to_uint32_def Let_def)
qed

lemma example_scale:
  "js_div (Fin 1920) (Fin 960) = Fin 2" "js_div (Fin 1080) (Fin 540) = Fin 2"
  "js_mul (Fin 100) (Fin 2) = Fin 200" "js_mul (Fin 50) (Fin 2) = Fin 100"
  "js_mul (Fin 400) (Fin 2) = Fin 800" "js_mul (Fin 300) (Fin 2) = Fin 600"
  "js_mul (Fin 0) (Fin 2) = Fin 0"
  by code_simp+

lemma narrow_scale:
  "js_div (Fin 1920) (Fin 704) = Fin (6141272219141585 / 2251799813685248)"
  "js_div (Fin 1080) (Fin 396) = Fin (6141272219141585 / 2251799813685248)"
  "js_mul (Fin 704) (Fin (6141272219141585 / 2251799813685248))
     = Fin (8444249301319679 / 4398046511104)"
  "js_mul (Fin 396) (Fin (6141272219141585 / 2251799813685248)) = Fin 1080"
  "js_mul (Fin 0) (Fin (6141272219141585 / 2251799813685248)) = Fin 0"
  "canvas_dim 300 (Fin (8444249301319679 / 4398046511104)) = 1919"
  "canvas_dim 150 (Fin 1080) = 1080"
  by code_simp+

text \<open>
  Claim C2. Confirming a crop maps the display-space rectangle to native pixels with the
  two independent factors \<open>naturalWidth / width\<close> and \<open>naturalHeight / height\<close>, each
  product and quotient rounded as a binary64 number: for every completed rectangle and
  every size of the rendered image, the canvas is sized by the mapped width and height
  and painted from the source rectangle that \<open>toNativeRect\<close> gives, and the original image
  is dropped. When the mapped rectangle is finite and its width and height are at least
  one pixel (and below 2^31), the new image is the export of a canvas of exactly that
  size, rounded down. For a 1920x1080 image shown at 960x540 and the rectangle
  (100, 50, 400, 300) this is an 800x600 image taken at (200, 100).
\<close>

theorem confirmCrop_maps_to_native:
  assumes cc: "completedCrop s = Some cc"
    and src: "originalImage s = Some src" "src \<noteq> []"
    and md: "mode s = Area"
    and rect: "toNativeRect cc (el_width (img_layout e), el_height (img_layout e))
                 (naturalWidth (img_layout e), naturalHeight (img_layout e)) = (X, Y, W, H)"
  shows "image (confirmCrop e s) =
           Some (toDataURL (canvas_dim 300 W) (canvas_dim 150 H)
                  (drawImage src X Y W H (canvas_dim 300 W) (canvas_dim 150 H)))
         \<and> originalImage (confirmCrop e s) = None
         \<and> (X = Fin nx \<and> Y = Fin ny \<and> W = Fin nw \<and> H = Fin nh
             \<and> 1 \<le> nw \<and> nw < 2147483648 \<and> 1 \<le> nh \<and> nh < 2147483648 \<longrightarrow>
              image (confirmCrop e s) =
                Some (CanvasData (nat \<lfloor>nw\<rfloor>) (nat \<lfloor>nh\<rfloor>)
                       (Some \<lparr> d_src = src, d_sx = nx, d_sy = ny, d_sw = nw, d_sh = nh,
                               d_dw = nat \<lfloor>nw\<rfloor>, d_dh = nat \<lfloor>nh\<rfloor> \<rparr>)))"
proof -
  let ?el = "img_layout e"
  let ?fx = "js_div (Fin (of_nat (naturalWidth ?el))) (Fin (of_nat (el_width ?el)))"
  let ?fy = "js_div (Fin (of_nat (naturalHeight ?el))) (Fin (of_nat (el_height ?el)))"
  have ref: "imgRef e s = Some ?el" using src md by (simp add: imgRef_def)
  have r: "js_mul (Fin (c_x cc)) ?fx = X" "js_mul (Fin (c_y cc)) ?fy = Y"
          "js_mul (Fin (c_width cc)) ?fx = W" "js_mul (Fin (c_height cc)) ?fy = H"
    using rect by (simp_all add: toNativeRect_def Let_def del: js_div.simps(1) js_mul.simps(1))
  let ?b = "toDataURL (canvas_dim 300 W) (canvas_dim 150 H)
              (drawImage src X Y W H (canvas_dim 300 W) (canvas_dim 150 H))"
  have body: "confirmCrop e s =
     (let s1 = s\<lparr>image := Some ?b, originalImage := None, status := ''Cropped!''\<rparr>
      in if autoSave s then saveImage_in s e (Some ?b) s1 else s1)"
    using src
    by (simp add: confirmCrop_def cc ref r Let_def del: js_div.simps(1) js_mul.simps(1))
  have img: "image (confirmCrop e s) = Some ?b"
    by (simp add: body Let_def image_saveImage_in)
  have orig: "originalImage (confirmCrop e s) = None"
    by (simp add: body Let_def originalImage_saveImage_in)
  have explicit: "?b = CanvasData (nat \<lfloor>nw\<rfloor>) (nat \<lfloor>nh\<rfloor>)
                       (Some \<lparr> d_src = src, d_sx = nx, d_sy = ny, d_sw = nw, d_sh = nh,
                               d_dw = nat \<lfloor>nw\<rfloor>, d_dh = nat \<lfloor>nh\<rfloor> \<rparr>)"
    if fin: "X = Fin nx" "Y = Fin ny" "W = Fin nw" "H = Fin nh"
      and w: "1 \<le> nw" "nw < 2147483648" and h: "1 \<le> nh" "nh < 2147483648"
  proof -
    have cw: "canvas_dim 300 (Fin nw) = nat \<lfloor>nw\<rfloor>" "nat \<lfloor>nw\<rfloor> \<noteq> 0"
      using canvas_dim_floor [OF w] by simp_all
    have ch: "canvas_dim 150 (Fin nh) = nat \<lfloor>nh\<rfloor>" "nat \<lfloor>nh\<rfloor> \<noteq> 0"
      using canvas_dim_floor [OF h] by simp_all
    have nz: "nw \<noteq> 0" "nh \<noteq> 0" using w(1) h(1) by auto
    show ?thesis using cw ch nz by (simp add: fin toDataURL_def)
  qed
  show ?thesis using img orig explicit by simp
qed

text \<open>The witness runs the claim's own example, and a layout whose scale factor is not
  a binary64 number: 1920x1080 shown at 704x396 with the whole image selected gives a
  canvas 1919 pixels wide, because 704 * (1920 / 704) is rounded below 1920.\<close>

theorem confirmCrop_maps_to_native_witness:
  "toNativeRect \<lparr> c_unit = Px, c_x = 100, c_y = 50, c_width = 400, c_height = 300 \<rparr>
     (960, 540) (1920, 1080) = (Fin 200, Fin 100, Fin 800, Fin 600)
   \<and> image (confirmCrop env0 cropping_app) =
       Some (CanvasData 800 600
              (Some \<lparr> d_src = ''iVBORw0KGgo='', d_sx = 200, d_sy = 100, d_sw = 800, d_sh = 600,
                      d_dw = 800, d_dh = 600 \<rparr>))
   \<and> originalImage (confirmCrop env0 cropping_app) = None
   \<and> (case image (confirmCrop env_narrow full_crop_app) of
         Some (CanvasData w h p) \<Rightarrow> (w, h) | _ \<Rightarrow> (0, 0)) = (1919, 1080)"
proof -
  have rect: "toNativeRect \<lparr> c_unit = Px, c_x = 100, c_y = 50, c_width = 400, c_height = 300 \<rparr>
     (960, 540) (1920, 1080) = (Fin 200, Fin 100, Fin 800, Fin 600)"
    by (simp add: toNativeRect_def Let_def example_scale del: js_div.simps(1) js_mul.simps(1))
  have narrow: "(case image (confirmCrop env_narrow full_crop_app) of
         Some (CanvasData w h p) \<Rightarrow> (w, h) | _ \<Rightarrow> (0, 0)) = (1919, 1080)"
    by (simp add: confirmCrop_def full_crop_app_def cropping_app_def env_narrow_def env0_def
          initial_app_def imgRef_def toDataURL_def Let_def narrow_scale
          del: js_div.simps(1) js_mul.simps(1))
  have "originalImage (confirmCrop env0 cropping_app) = None
         \<and> (Fin 200 = Fin 200 \<and> Fin 100 = Fin 100 \<and> Fin 800 = Fin 800 \<and> Fin 600 = Fin 600
             \<and> 1 \<le> (800::rat) \<and> (800::rat) < 2147483648 \<and> 1 \<le> (600::rat) \<and> (600::rat) < 2147483648 \<longrightarrow>
              image (confirmCrop env0 cropping_app) =
                Some (CanvasData (nat \<lfloor>800::rat\<rfloor>) (nat \<lfloor>600::rat\<rfloor>)
                       (Some \<lparr> d_src = ''iVBORw0KGgo='', d_sx = 200, d_sy = 100, d_sw = 800,
                               d_sh = 600, d_dw = nat \<lfloor>800::rat\<rfloor>, d_dh = nat \<lfloor>600::rat\<rfloor> \<rparr>)))"
    by (rule conjunct2, rule confirmCrop_maps_to_native
          [where cc = "\<lparr> c_unit = Px, c_x = 100, c_y = 50, c_width = 400, c_height = 300 \<rparr>"])
       (simp_all add: env0_def cropping_app_def initial_app_def rect)
  then show ?thesis using rect narrow by simp
qed

text \<open>
  Claim C6 at a zero-area rectangle (a click without a drag completes a crop of width and
  height 0). \<open>confirmCrop\<close> only tests that a completed crop exists, so it runs: the canvas
  gets size 0x0, its data URL is \<open>"data:,"\<close>, the held original image is discarded and
  \<open>image\<close> becomes the empty string. The state is not what it was.
\<close>

theorem zero_area_crop_replaces_image:
  "image zero_area_app = None \<and> originalImage zero_area_app = Some ''iVBORw0KGgo=''
   \<and> image (confirmCrop env0 zero_area_app) = Some (Data [])
   \<and> originalImage (confirmCrop env0 zero_area_app) = None
   \<and> confirmCrop env0 zero_area_app \<noteq> zero_area_app"
proof -
  have a: "image (confirmCrop env0 zero_area_app) = Some (Data [])"
    by (simp add: confirmCrop_def zero_area_app_def env0_def initial_app_def imgRef_def
          canvas_dim_def to_uint32_def toDataURL_def Let_def example_scale
          del: js_div.simps(1) js_mul.simps(1))
  have b: "originalImage (confirmCrop env0 zero_area_app) = None"
    by (simp add: confirmCrop_def zero_area_app_def env0_def initial_app_def imgRef_def
          canvas_dim_def to_uint32_def toDataURL_def Let_def example_scale
          del: js_div.simps(1) js_mul.simps(1))
  have c: "originalImage zero_area_app = Some ''iVBORw0KGgo=''" "image zero_area_app = None"
    by (simp_all add: zero_area_app_def initial_app_def)
  from b c have "confirmCrop env0 zero_area_app \<noteq> zero_area_app" by auto
  with a b c show ?thesis by simp
qed

section \<open>Starting while a recording is active\<close>

lemma startRecording_granted:
  assumes "getDisplayMedia e = Inr stream" "newMediaRecorder e = None"
  shows "startRecording e s =
           s\<lparr> mediaRecorderRef := Some (length (recorders s)),
              recordedChunksRef := [],
              recorders := recorders s @ [\<lparr> r_stream = stream, r_state = Recording \<rparr>],
              effects := effects s @ [RecorderStart (length (recorders s))],
              isRecording := True,
              status := ''Recording...'' \<rparr>"
  using assms by (simp add: startRecording_def Let_def)

text \<open>
  Claim C7, as the code has it. The Start Recording button is rendered exactly when the
  mode is record and the recording flag is false, so while the flag is set a click on it
  reaches no handler and changes nothing. \<open>startRecording\<close> itself never reads the flag or
  the recorder handle and knows no AlreadyRecording error. Whenever the screen share is
  granted and the recorder can be built, in any state, it creates and starts one more
  recorder beside those that exist, points the handle at it, empties the chunk buffer,
  sets the flag and reports "Recording..."; its only errors are a refused screen share
  and a failed recorder constructor, reported in the status with nothing else changed.
\<close>

theorem start_gated_by_flag:
  "(StartRecordingBtn \<in> set (buttons s)) = (mode s = Record \<and> \<not> isRecording s)
   \<and> (isRecording s \<longrightarrow> click e StartRecordingBtn s = s)
   \<and> (getDisplayMedia e = Inr stream \<and> newMediaRecorder e = None \<longrightarrow>
        startRecording e s =
          s\<lparr> mediaRecorderRef := Some (length (recorders s)),
             recordedChunksRef := [],
             recorders := recorders s @ [\<lparr> r_stream = stream, r_state = Recording \<rparr>],
             effects := effects s @ [RecorderStart (length (recorders s))],
             isRecording := True,
             status := ''Recording...'' \<rparr>
      \<and> startRecording e (s\<lparr>isRecording := flag, mediaRecorderRef := handle\<rparr>)
          = startRecording e s
      \<and> length (filter (\<lambda>r. r_state r = Recording) (recorders (startRecording e s)))
          = Suc (length (filter (\<lambda>r. r_state r = Recording) (recorders s))))
   \<and> (getDisplayMedia e = Inl err \<longrightarrow>
        startRecording e s = s\<lparr>status := ''Recording Error: '' @ err\<rparr>)
   \<and> (getDisplayMedia e = Inr stream \<and> newMediaRecorder e = Some err \<longrightarrow>
        startRecording e s = s\<lparr>status := ''Recording Error: '' @ err\<rparr>)"
proof (intro conjI impI)
  assume g: "getDisplayMedia e = Inr stream \<and> newMediaRecorder e = None"
  then show "startRecording e (s\<lparr>isRecording := flag, mediaRecorderRef := handle\<rparr>)
               = startRecording e s"
    by (simp add: startRecording_granted)
  from g show "length (filter (\<lambda>r. r_state r = Recording) (recorders (startRecording e s)))
          = Suc (length (filter (\<lambda>r. r_state r = Recording) (recorders s)))"
    by (simp add: startRecording_granted)
  from g show "startRecording e s =
          s\<lparr> mediaRecorderRef := Some (length (recorders s)),
             recordedChunksRef := [],
             recorders := recorders s @ [\<lparr> r_stream = stream, r_state = Recording \<rparr>],
             effects := effects s @ [RecorderStart (length (recorders s))],
             isRecording := True,
             status := ''Recording...'' \<rparr>"
    by (simp add: startRecording_granted)
qed (simp_all add: buttons_def click_def startRecording_def)

theorem start_gated_by_flag_witness:
  "isRecording recording_chunk_app
   \<and> StartRecordingBtn \<notin> set (buttons recording_chunk_app)
   \<and> click env0 StartRecordingBtn recording_chunk_app = recording_chunk_app
   \<and> getDisplayMedia env0 = Inr 7 \<and> newMediaRecorder env0 = None
   \<and> recordedChunksRef recording_chunk_app = [[26, 69, 223, 163]]
   \<and> recordedChunksRef (startRecording env0 recording_chunk_app) = []
   \<and> mediaRecorderRef (startRecording env0 recording_chunk_app) = Some 1
   \<and> length (filter (\<lambda>r. r_state r = Recording)
               (recorders (startRecording env0 recording_chunk_app))) = 2"
proof -
  have f: "isRecording recording_chunk_app" "mode recording_chunk_app = Record"
      "getDisplayMedia env0 = Inr 7" "newMediaRecorder env0 = None"
      "recordedChunksRef recording_chunk_app = [[26, 69, 223, 163]]"
      "recorders recording_chunk_app = [\<lparr> r_stream = 7, r_state = Recording \<rparr>]"
    by (simp_all add: recording_chunk_app_def recording_app_def startRecording_def env0_def
          initial_app_def Let_def)
  show ?thesis
    using start_gated_by_flag [of recording_chunk_app env0 7 flag handle err] f
    by simp
qed

text \<open>
  Claim C7 as stated fails for the operation itself: called while a recording is active
  and a chunk is buffered, \<open>startRecording\<close> reports "Recording..." rather than an error,
  creates and starts a second recorder next to the first, moves the handle to it and
  throws the buffered chunk away.
\<close>

theorem start_while_recording_counterexample:
  "isRecording recording_chunk_app
   \<and> recordedChunksRef recording_chunk_app = [[26, 69, 223, 163]]
   \<and> status (startRecording env0 recording_chunk_app) = ''Recording...''
   \<and> map r_state (recorders (startRecording env0 recording_chunk_app)) = [Recording, Recording]
   \<and> mediaRecorderRef (startRecording env0 recording_chunk_app) = Some 1
   \<and> recordedChunksRef (startRecording env0 recording_chunk_app) = []
   \<and> effects (startRecording env0 recording_chunk_app) = [RecorderStart 0, RecorderStart 1]"
  by (simp add: recording_chunk_app_def recording_app_def startRecording_def env0_def
        initial_app_def Let_def)

section \<open>A rendered size of zero\<close>

lemma signed_inf_not_finite: "\<not> is_finite (signed_inf a)"
  by (simp add: signed_inf_def)

lemma mul_not_finite: "\<not> is_finite y \<Longrightarrow> \<not> is_finite (js_mul x y)"
  by (cases x; cases y) (simp_all add: signed_inf_def)

lemma div_zero_not_finite: "\<not> is_finite (js_div (Fin b) (Fin 0))"
  by (simp add: signed_inf_def)

lemma mul_div_zero_not_finite: "\<not> is_finite (js_mul x (js_div (Fin b) (Fin 0)))"
  by (rule mul_not_finite) (rule div_zero_not_finite)

lemma canvas_dim_not_finite: "\<not> is_finite x \<Longrightarrow> canvas_dim d x = 0"
  by (cases x) (simp_all add: canvas_dim_def to_uint32_def)

lemma getCoordinates_cases:
  "getCoordinates ev c r =
     (case ev of
        TouchEv [] \<Rightarrow> Inl TypeError
      | TouchEv (t # ts) \<Rightarrow>
          Inr (js_mul (js_sub (Fin (fst t)) (Fin (rect_left r)))
                 (js_div (Fin (of_nat (bm_width c))) (Fin (rect_width r))),
               js_mul (js_sub (Fin (snd t)) (Fin (rect_top r)))
                 (js_div (Fin (of_nat (bm_height c))) (Fin (rect_height r))))
      | MouseEv cx cy \<Rightarrow>
          Inr (js_mul (js_sub (Fin cx) (Fin (rect_left r)))
                 (js_div (Fin (of_nat (bm_width c))) (Fin (rect_width r))),
               js_mul (js_sub (Fin cy) (Fin (rect_top r)))
                 (js_div (Fin (of_nat (bm_height c))) (Fin (rect_height r)))))"
  by (simp add: getCoordinates_def Let_def del: js_div.simps(1) js_mul.simps(1) js_sub.simps(1)
        split: pointer_event.splits list.splits prod.splits)

lemma confirmCrop_zero_display:
  assumes "completedCrop s = Some cc" "truthy_str (originalImage s)" "mode s = Area"
    and "el_width (img_layout e) = 0 \<or> el_height (img_layout e) = 0"
  shows "image (confirmCrop e s) = Some (Data [])"
proof -
  let ?el = "img_layout e"
  let ?sx = "js_div (Fin (of_nat (naturalWidth ?el))) (Fin (of_nat (el_width ?el)))"
  let ?sy = "js_div (Fin (of_nat (naturalHeight ?el))) (Fin (of_nat (el_height ?el)))"
  have ref: "imgRef e s = Some ?el" using assms by (simp add: imgRef_def)
  have "canvas_dim 300 (js_mul (Fin (c_width cc)) ?sx) = 0
        \<or> canvas_dim 150 (js_mul (Fin (c_height cc)) ?sy) = 0"
  proof -
    from assms(4) show ?thesis
    proof
      assume "el_width ?el = 0"
      then have "\<not> is_finite (js_mul (Fin (c_width cc)) ?sx)"
        using mul_div_zero_not_finite [of "Fin (c_width cc)"] by simp
      then show ?thesis by (simp add: canvas_dim_not_finite)
    next
      assume "el_height ?el = 0"
      then have "\<not> is_finite (js_mul (Fin (c_height cc)) ?sy)"
        using mul_div_zero_not_finite [of "Fin (c_height cc)"] by simp
      then show ?thesis by (simp add: canvas_dim_not_finite)
    qed
  qed
  then have url: "toDataURL (canvas_dim 300 (js_mul (Fin (c_width cc)) ?sx))
                    (canvas_dim 150 (js_mul (Fin (c_height cc)) ?sy)) p = Data []" for p
    by (auto simp: toDataURL_def)
  show ?thesis
    using assms(1,2) ref
    by (simp add: confirmCrop_def Let_def url image_saveImage_in
          del: js_div.simps(1) js_mul.simps(1))
qed

text \<open>
  Claim C3, as the code has it. Neither mapping checks the rendered size, and there is
  no geometry error to signal: the division by a zero width or height is carried out and
  gives an infinity or NaN. \<open>getCoordinates\<close> then returns a non-finite coordinate for the
  collapsed dimension (its only failure is the TypeError of a touch event without
  touches), and \<open>confirmCrop\<close> sizes its canvas 0 and stores the empty data string.
\<close>

theorem zero_display_size_no_error:
  "(rect_width r = 0 \<longrightarrow>
      (case getCoordinates ev c r of
         Inl err \<Rightarrow> ev = TouchEv []
       | Inr (x, y) \<Rightarrow> \<not> is_finite x))
   \<and> (rect_height r = 0 \<longrightarrow>
      (case getCoordinates ev c r of
         Inl err \<Rightarrow> ev = TouchEv []
       | Inr (x, y) \<Rightarrow> \<not> is_finite y))
   \<and> (completedCrop s = Some cc \<and> truthy_str (originalImage s) \<and> mode s = Area
        \<and> (el_width (img_layout e) = 0 \<or> el_height (img_layout e) = 0)
      \<longrightarrow> image (confirmCrop e s) = Some (Data []))"
proof (intro conjI impI)
  assume "rect_width r = 0"
  then show "case getCoordinates ev c r of Inl err \<Rightarrow> ev = TouchEv [] | Inr (x, y) \<Rightarrow> \<not> is_finite x"
    by (simp add: getCoordinates_cases mul_div_zero_not_finite
          del: js_div.simps(1) js_mul.simps(1) js_sub.simps(1)
          split: pointer_event.splits list.splits)
next
  assume "rect_height r = 0"
  then show "case getCoordinates ev c r of Inl err \<Rightarrow> ev = TouchEv [] | Inr (x, y) \<Rightarrow> \<not> is_finite y"
    by (simp add: getCoordinates_cases mul_div_zero_not_finite
          del: js_div.simps(1) js_mul.simps(1) js_sub.simps(1)
          split: pointer_event.splits list.splits)
next
  assume "completedCrop s = Some cc \<and> truthy_str (originalImage s) \<and> mode s = Area
        \<and> (el_width (img_layout e) = 0 \<or> el_height (img_layout e) = 0)"
  then show "image (confirmCrop e s) = Some (Data [])"
    using confirmCrop_zero_display by blast
qed

lemma collapsed_coordinates:
  "getCoordinates (MouseEv 10 10) (new_canvas 4 4) rect_collapsed = Inr (PosInf, PosInf)"
proof -
  have s: "js_sub (Fin 10) (Fin 0) = Fin 10" by code_simp
  show ?thesis
    by (simp add: getCoordinates_cases rect_collapsed_def new_canvas_def s signed_inf_def
          del: js_sub.simps(1))
qed

theorem zero_display_size_no_error_witness:
  "rect_width rect_collapsed = 0 \<and> rect_height rect_collapsed = 0
   \<and> getCoordinates (MouseEv 10 10) (new_canvas 4 4) rect_collapsed = Inr (PosInf, PosInf)
   \<and> el_width (img_layout env_collapsed) = 0
   \<and> image (confirmCrop env_collapsed cropping_app) = Some (Data [])"
  using zero_display_size_no_error
    [of rect_collapsed "MouseEv 10 10" "new_canvas 4 4" cropping_app
        "\<lparr> c_unit = Px, c_x = 100, c_y = 50, c_width = 400, c_height = 300 \<rparr>" env_collapsed]
    collapsed_coordinates
  by (simp add: rect_collapsed_def env_collapsed_def env0_def cropping_app_def initial_app_def)

text \<open>
  Claim C3 as stated fails: for a canvas rendered with width and height 0, a mouse
  position maps to (Infinity, Infinity), returned as an ordinary result.
\<close>

theorem zero_display_size_counterexample:
  "rect_width rect_collapsed = 0
   \<and> getCoordinates (MouseEv 10 10) (new_canvas 4 4) rect_collapsed = Inr (PosInf, PosInf)"
  using collapsed_coordinates by (simp add: rect_collapsed_def)

section \<open>Erasing\<close>

lemma getCoordinates_ok:
  "ev \<noteq> TouchEv [] \<Longrightarrow> \<exists>x y. getCoordinates ev c r = Inr (x, y)"
  by (cases ev) (auto simp: getCoordinates_def Let_def split: list.splits prod.splits)

lemma getCoordinates_error:
  "ev = TouchEv [] \<Longrightarrow> getCoordinates ev c r = Inl TypeError"
  by (simp add: getCoordinates_def)

lemma moveTo_frame:
  "bm_width (moveTo x y c) = bm_width c" "bm_height (moveTo x y c) = bm_height c"
  "bm_px (moveTo x y c) = bm_px c" "ctx_op (moveTo x y c) = ctx_op c"
  "ctx_strokeStyle (moveTo x y c) = ctx_strokeStyle c"
  "ctx_lineWidth (moveTo x y c) = ctx_lineWidth c"
  by (cases x; cases y; simp)+

lemma lineTo_frame:
  "bm_width (lineTo x y c) = bm_width c" "bm_height (lineTo x y c) = bm_height c"
  "bm_px (lineTo x y c) = bm_px c" "ctx_op (lineTo x y c) = ctx_op c"
  "ctx_strokeStyle (lineTo x y c) = ctx_strokeStyle c"
  "ctx_lineWidth (lineTo x y c) = ctx_lineWidth c"
  by (cases x; cases y; simp split: list.splits prod.splits)+

lemma stroke_frame:
  "bm_width (stroke raster c) = bm_width c" "bm_height (stroke raster c) = bm_height c"
  "ctx_op (stroke raster c) = ctx_op c" "ctx_strokeStyle (stroke raster c) = ctx_strokeStyle c"
  "ctx_lineWidth (stroke raster c) = ctx_lineWidth c" "ctx_path (stroke raster c) = ctx_path c"
  by (simp_all add: stroke_def)

lemma closePath_frame:
  "bm_width (closePath c) = bm_width c" "bm_height (closePath c) = bm_height c"
  "bm_px (closePath c) = bm_px c"
  by (simp_all add: closePath_def split: list.splits prod.splits)

lemma stroke_destination_out:
  assumes "ctx_op c = DestinationOut" "ctx_strokeStyle c = (0, 0, 0, 1)"
    and "x < bm_width c" "y < bm_height c"
    and "1 \<le> raster (ctx_lineWidth c) (ctx_path c) x y"
  shows "bm_px (stroke raster c) x y = transparent"
proof -
  have k: "coverage raster c x y = 1" using assms(5) by (simp add: coverage_def)
  obtain r g b a where p: "bm_px c x y = (r, g, b, a)" by (cases "bm_px c x y") auto
  show ?thesis using assms(1-4) k p by (simp add: stroke_def transparent_def Let_def)
qed

lemma stroke_destination_out_keeps_transparent:
  assumes "ctx_op c = DestinationOut" "bm_px c x y = transparent"
  shows "bm_px (stroke raster c) x y = transparent"
  using assms by (simp add: stroke_def transparent_def)

lemma startDrawing_eraser:
  assumes "tool s = Eraser" "canvasRef s = Some c" "ev \<noteq> TouchEv []"
  shows "erasing (bm_width c) (bm_height c) (startDrawing ev r s)"
proof -
  obtain a b where g: "getCoordinates ev c r = Inr (a, b)"
    using getCoordinates_ok [OF assms(3)] by blast
  show ?thesis
    using assms(1,2) g
    by (simp add: erasing_def startDrawing_def Let_def set_lineWidth_def beginPath_def
          moveTo_frame)
qed

lemma startDrawing_frame:
  "imageData (startDrawing ev r s) = imageData s" "dimensions (startDrawing ev r s) = dimensions s"
  by (simp_all add: startDrawing_def Let_def split: option.splits sum.splits prod.splits)

lemma draw_frame:
  "imageData (draw raster ev r s) = imageData s" "dimensions (draw raster ev r s) = dimensions s"
  "isDrawing (draw raster ev r s) = isDrawing s"
  by (simp_all add: draw_def Let_def split: option.splits sum.splits prod.splits)

lemma draws_frame:
  "imageData (draws raster ms s) = imageData s" "dimensions (draws raster ms s) = dimensions s"
  by (induction ms arbitrary: s) (simp_all add: draws_def draw_frame)

lemma draws_Cons: "draws raster (m # ms) s = draws raster ms (draw raster (fst m) (snd m) s)"
  by (simp add: draws_def)

lemma draws_append: "draws raster (ms @ ns) s = draws raster ns (draws raster ms s)"
  by (simp add: draws_def)

lemma draws_Nil: "draws raster [] s = s"
  by (simp add: draws_def)

text \<open>One pointer move during an eraser stroke: the eraser's settings stay, a pixel
  that is clear stays clear, and a pixel the stroke fully covers becomes clear.\<close>

lemma draw_erasing:
  assumes "erasing w h t"
  shows "erasing w h (draw raster ev r t)"
proof (cases "canvasRef t")
  case None
  with assms show ?thesis by (simp add: erasing_def)
next
  case (Some c)
  show ?thesis
  proof (cases "getCoordinates ev c r")
    case (Inl err)
    with assms Some show ?thesis by (simp add: draw_def)
  next
    case (Inr p)
    obtain a b where p: "p = (a, b)" by (cases p)
    show ?thesis
      using assms Some Inr p
      by (simp add: erasing_def draw_def stroke_frame lineTo_frame)
  qed
qed

lemma draw_keeps_clear:
  assumes "erasing w h t" "clear_at x y t"
  shows "clear_at x y (draw raster ev r t)"
proof (cases "canvasRef t")
  case None
  with assms show ?thesis by (simp add: erasing_def)
next
  case (Some c)
  show ?thesis
  proof (cases "getCoordinates ev c r")
    case (Inl err)
    with assms Some show ?thesis by (simp add: draw_def)
  next
    case (Inr p)
    obtain a b where p: "p = (a, b)" by (cases p)
    have op: "ctx_op (lineTo a b c) = DestinationOut"
      using assms(1) Some by (simp add: erasing_def lineTo_frame)
    have px: "bm_px (lineTo a b c) x y = transparent"
      using assms(2) Some by (simp add: clear_at_def lineTo_frame)
    have "bm_px (stroke raster (lineTo a b c)) x y = transparent"
      by (rule stroke_destination_out_keeps_transparent [OF op px])
    then show ?thesis
      using assms(1) Some Inr p by (simp add: clear_at_def erasing_def draw_def)
  qed
qed

lemma draw_clears_covered:
  assumes e: "erasing w h t" and ev: "ev \<noteq> TouchEv []"
    and res: "canvasRef (draw raster ev r t) = Some c1"
    and inside: "x < w" "y < h"
    and covered: "1 \<le> raster (ctx_lineWidth c1) (ctx_path c1) x y"
  shows "bm_px c1 x y = transparent"
proof -
  obtain c where c: "canvasRef t = Some c" "isDrawing t" "ctx_op c = DestinationOut"
      "ctx_strokeStyle c = (0, 0, 0, 1)" "bm_width c = w" "bm_height c = h"
    using e by (auto simp: erasing_def split: option.splits)
  obtain a b where g: "getCoordinates ev c r = Inr (a, b)"
    using getCoordinates_ok [OF ev] by blast
  let ?c2 = "lineTo a b c"
  have c1: "c1 = stroke raster ?c2"
    using res c(1,2) g by (simp add: draw_def)
  have cov: "1 \<le> raster (ctx_lineWidth ?c2) (ctx_path ?c2) x y"
    using covered by (simp add: c1 stroke_frame)
  show ?thesis
    unfolding c1
  proof (rule stroke_destination_out)
    show "1 \<le> raster (ctx_lineWidth ?c2) (ctx_path ?c2) x y" by (rule cov)
  qed (simp_all add: lineTo_frame c inside)
qed

lemma draws_erasing: "erasing w h t \<Longrightarrow> erasing w h (draws raster ms t)"
  by (induction ms arbitrary: t) (simp_all add: draws_Nil draws_Cons draw_erasing)

lemma draws_keep_clear:
  "erasing w h t \<Longrightarrow> clear_at x y t \<Longrightarrow> clear_at x y (draws raster ms t)"
  by (induction ms arbitrary: t)
     (simp_all add: draws_Nil draws_Cons draw_erasing draw_keeps_clear)

lemma composite_over_transparent:
  "composite SourceOver transparent q = q" "composite SourceOver q transparent = q"
  by (cases q; simp add: transparent_def)+

lemma drawOnto_blank_pixel:
  "x < w \<Longrightarrow> y < h \<Longrightarrow> bm_px (drawOnto img (blank w h)) x y = pixel img x y"
  by (simp add: drawOnto_def blank_def pixel_def composite_over_transparent del: composite.simps)

lemma drawOnto_size:
  "bm_width (drawOnto src dst) = bm_width dst" "bm_height (drawOnto src dst) = bm_height dst"
  by (simp_all add: drawOnto_def)

text \<open>Flattening a state whose layer is clear at a position shows the base image there.\<close>

lemma merged_shows_base:
  assumes cv: "canvasRef t = Some c" and px: "bm_px c x y = transparent"
    and inside: "x < bm_width c" "y < bm_height c"
    and base: "decode (imageData t) = Some img"
    and dims: "dimensions t = (bm_width c, bm_height c)"
  shows "\<exists>out. mergedCanvas decode t = Some out \<and> bm_px out x y = pixel img x y"
proof -
  have m: "mergedCanvas decode t
             = Some (drawOnto c (drawOnto img (blank (bm_width c) (bm_height c))))"
    using inside by (simp add: mergedCanvas_def base dims cv Let_def)
  have out: "bm_px (drawOnto c (drawOnto img (blank (bm_width c) (bm_height c)))) x y
               = pixel img x y"
    using inside
    by (simp add: drawOnto_def [of c] drawOnto_size px composite_over_transparent
          drawOnto_blank_pixel del: composite.simps)
  show ?thesis using m out by simp
qed

lemma draw_ignores_color:
  "draw raster ev r (t\<lparr>color := k\<rparr>) = (draw raster ev r t)\<lparr>color := k\<rparr>"
  by (simp add: draw_def Let_def split: option.splits sum.splits prod.splits)

lemma draws_ignore_color:
  "draws raster ms (t\<lparr>color := k\<rparr>) = (draws raster ms t)\<lparr>color := k\<rparr>"
  by (induction ms arbitrary: t) (simp_all add: draws_Nil draws_Cons draw_ignores_color)

lemma startDrawing_eraser_ignores_color:
  "tool s = Eraser \<Longrightarrow> startDrawing ev r (s\<lparr>color := k\<rparr>) = (startDrawing ev r s)\<lparr>color := k\<rparr>"
  by (simp add: startDrawing_def Let_def split: option.splits sum.splits prod.splits)

lemma stopDrawing_ignores_color:
  "stopDrawing (t\<lparr>color := k\<rparr>) = (stopDrawing t)\<lparr>color := k\<rparr>"
  by (simp add: stopDrawing_def)

text \<open>
  Claim C4, as the code has it. An eraser stroke, from the pointer going down through
  any number of pointer moves to the pointer going up, acts on the annotation layer
  alone, with destination-out and an opaque source: it never reads the chosen colour, and
  every pixel that the stroked path fully covers at one of its moves is transparent in
  the layer from then on, whatever was drawn there. The base image is not part of that
  layer. In the flattened output the base image is drawn first and the layer over it, so
  an erased pixel shows the base image's own pixel, during the stroke and after it.
\<close>

theorem eraser_clears_layer_not_base:
  assumes tl: "tool s = Eraser"
    and cv: "canvasRef s = Some c"
    and ev0: "ev0 \<noteq> TouchEv []"
    and split: "moves = pre @ m # post"
    and mv: "fst m \<noteq> TouchEv []"
    and at: "canvasRef (draws raster (pre @ [m]) (startDrawing ev0 r0 s)) = Some c1"
    and inside: "x < bm_width c" "y < bm_height c"
    and covered: "1 \<le> raster (ctx_lineWidth c1) (ctx_path c1) x y"
    and base: "decode (imageData s) = Some img"
    and dims: "dimensions s = (bm_width c, bm_height c)"
  shows "(\<exists>c'. canvasRef (draws raster moves (startDrawing ev0 r0 s)) = Some c'
               \<and> bm_px c' x y = transparent)
         \<and> (\<exists>out. mergedCanvas decode (draws raster moves (startDrawing ev0 r0 s)) = Some out
                  \<and> bm_px out x y = pixel img x y)
         \<and> (\<exists>out. mergedCanvas decode (stopDrawing (draws raster moves (startDrawing ev0 r0 s)))
                     = Some out
                  \<and> bm_px out x y = pixel img x y)
         \<and> stopDrawing (draws raster moves (startDrawing ev0 r0 (s\<lparr>color := k\<rparr>)))
             = (stopDrawing (draws raster moves (startDrawing ev0 r0 s)))\<lparr>color := k\<rparr>"
proof -
  let ?w = "bm_width c" and ?h = "bm_height c"
  let ?s0 = "startDrawing ev0 r0 s"
  let ?s1 = "draws raster pre ?s0"
  let ?s2 = "draw raster (fst m) (snd m) ?s1"
  let ?s3 = "draws raster moves ?s0"
  have e0: "erasing ?w ?h ?s0" by (rule startDrawing_eraser [OF tl cv ev0])
  have e1: "erasing ?w ?h ?s1" by (rule draws_erasing [OF e0])
  have e2: "erasing ?w ?h ?s2" by (rule draw_erasing [OF e1])
  have s2: "draws raster (pre @ [m]) ?s0 = ?s2"
    by (simp add: draws_append draws_Cons draws_Nil)
  have at2: "canvasRef ?s2 = Some c1" using at s2 by simp
  have "bm_px c1 x y = transparent"
    by (rule draw_clears_covered [OF e1 mv at2 inside covered])
  then have k2: "clear_at x y ?s2" using at2 by (simp add: clear_at_def)
  have s3: "?s3 = draws raster post ?s2"
    by (simp add: split draws_append draws_Cons)
  have e3: "erasing ?w ?h ?s3" unfolding s3 by (rule draws_erasing [OF e2])
  have k3: "clear_at x y ?s3" unfolding s3 by (rule draws_keep_clear [OF e2 k2])
  obtain c' where c': "canvasRef ?s3 = Some c'" "bm_px c' x y = transparent"
      "bm_width c' = ?w" "bm_height c' = ?h" "isDrawing ?s3"
    using e3 k3 by (auto simp: erasing_def clear_at_def split: option.splits)
  have fr: "imageData ?s3 = imageData s" "dimensions ?s3 = dimensions s"
    by (simp_all add: draws_frame startDrawing_frame)
  have m3: "\<exists>out. mergedCanvas decode ?s3 = Some out \<and> bm_px out x y = pixel img x y"
    by (rule merged_shows_base [OF c'(1,2)]) (simp_all add: c' inside fr base dims)
  have st: "canvasRef (stopDrawing ?s3) = Some (closePath c')"
      "imageData (stopDrawing ?s3) = imageData s" "dimensions (stopDrawing ?s3) = dimensions s"
    using c'(1,5) by (simp_all add: stopDrawing_def fr)
  have m4: "\<exists>out. mergedCanvas decode (stopDrawing ?s3) = Some out
                    \<and> bm_px out x y = pixel img x y"
    by (rule merged_shows_base [OF st(1)])
       (simp_all add: closePath_frame c' inside st base dims)
  have col: "stopDrawing (draws raster moves (startDrawing ev0 r0 (s\<lparr>color := k\<rparr>)))
             = (stopDrawing ?s3)\<lparr>color := k\<rparr>"
    by (simp add: startDrawing_eraser_ignores_color [OF tl] draws_ignore_color
          stopDrawing_ignores_color)
  show ?thesis using c'(1,2) m3 m4 col by blast
qed

text \<open>The witness is an eraser stroke of three pointer events over a pen stroke, the
  second a touch event without touches: pixel (0, 0), painted red by the pen, is covered
  at the first move, and is transparent in the layer and white in the output at the end.\<close>

theorem eraser_clears_layer_not_base_witness:
  "tool (penned0\<lparr>tool := Eraser\<rparr>) = Eraser
   \<and> map_option (\<lambda>c. bm_px c 0 0) (canvasRef penned0) = Some (1, 0, 0, 1)
   \<and> map_option (\<lambda>c. bm_px c 0 0) (canvasRef erased_twice0) = Some transparent
   \<and> (\<exists>out. mergedCanvas decode0 (stopDrawing erased_twice0) = Some out
             \<and> bm_px out 0 0 = pixel white4 0 0)"
proof -
  have p: "map_option (\<lambda>c. bm_px c 0 0) (canvasRef penned0) = Some (1, 0, 0, 1)"
    by code_simp
  have e1: "map_option (\<lambda>c. (bm_width c, bm_height c)) (canvasRef (penned0\<lparr>tool := Eraser\<rparr>))
              = Some (4, 4)"
    by code_simp
  then obtain c where c: "canvasRef (penned0\<lparr>tool := Eraser\<rparr>) = Some c"
      "bm_width c = 4" "bm_height c = 4"
    by auto
  have e2: "map_option (\<lambda>c. (ctx_lineWidth c, ctx_path c))
              (canvasRef (draws raster0 ([] @ [(MouseEv 1 1, rect4)])
                 (startDrawing (MouseEv 0 0) rect4 (penned0\<lparr>tool := Eraser\<rparr>))))
              = Some (5, [(False, [(0, 0), (1, 1)])])"
    by code_simp
  then obtain c1 where c1:
      "canvasRef (draws raster0 ([] @ [(MouseEv 1 1, rect4)])
                 (startDrawing (MouseEv 0 0) rect4 (penned0\<lparr>tool := Eraser\<rparr>))) = Some c1"
      "ctx_lineWidth c1 = 5" "ctx_path c1 = [(False, [(0, 0), (1, 1)])]"
    by auto
  have e3: "imageData (penned0\<lparr>tool := Eraser\<rparr>) = ''white4''
            \<and> dimensions (penned0\<lparr>tool := Eraser\<rparr>) = (4, 4)"
    by code_simp
  have d: "decode0 (imageData (penned0\<lparr>tool := Eraser\<rparr>)) = Some white4"
      "dimensions (penned0\<lparr>tool := Eraser\<rparr>) = (bm_width c, bm_height c)"
    using c(2,3) e3 by (simp_all add: decode0_def)
  have r: "1 \<le> raster0 (ctx_lineWidth c1) (ctx_path c1) 0 0"
    by (simp add: c1 raster0_def)
  have "(\<exists>c'. canvasRef erased_twice0 = Some c' \<and> bm_px c' 0 0 = transparent)
         \<and> (\<exists>out. mergedCanvas decode0 (stopDrawing erased_twice0) = Some out
                   \<and> bm_px out 0 0 = pixel white4 0 0)"
    using eraser_clears_layer_not_base
      [of "penned0\<lparr>tool := Eraser\<rparr>" c "MouseEv 0 0"
          "[(MouseEv 1 1, rect4), (TouchEv [], rect4), (MouseEv 2 2, rect4)]"
          "[]" "(MouseEv 1 1, rect4)" "[(TouchEv [], rect4), (MouseEv 2 2, rect4)]"
          raster0 rect4 c1 0 0 decode0 white4 "''#ff0000''"]
      c c1 d r
    by (simp add: erased_twice0_def)
  then show ?thesis using p by auto
qed

text \<open>
  Claim C4 as stated fails: after a pen stroke and an eraser stroke over the same pixel
  of an opaque white base image, the flattened output still has the opaque white pixel
  there; the base image is not punched through.
\<close>

theorem eraser_keeps_base_counterexample:
  "tool (penned0\<lparr>tool := Eraser\<rparr>) = Eraser
   \<and> map_option (\<lambda>c. coverage raster0 c 0 0) (canvasRef erased0) = Some 1
   \<and> map_option (\<lambda>b. pixel b 0 0) (decode0 (imageData erased0)) = Some (1, 1, 1, 1)
   \<and> map_option (\<lambda>b. pixel b 0 0) (mergedCanvas decode0 erased0) = Some (1, 1, 1, 1)"
  by code_simp

section \<open>Flattening twice\<close>

text \<open>
  Claim C5. \<open>getMergedImage\<close> leaves the component and its annotation canvas as they
  were, so a second call with nothing drawn in between gives the same string as the
  first; and it does give a string whenever the image data decodes and the canvas has
  pixels.
\<close>

theorem getMergedImage_repeatable:
  "snd (getMergedImage decode encode s) = s
   \<and> fst (getMergedImage decode encode (snd (getMergedImage decode encode s)))
       = fst (getMergedImage decode encode s)
   \<and> (decode (imageData s) \<noteq> None
        \<and> (case canvasRef s of None \<Rightarrow> True | Some c \<Rightarrow> 0 < bm_width c \<and> 0 < bm_height c)
      \<longrightarrow> fst (getMergedImage decode encode s) \<noteq> None)"
  by (auto simp: getMergedImage_def mergedCanvas_def Let_def split: option.splits)

theorem getMergedImage_repeatable_witness:
  "decode0 (imageData erased0) \<noteq> None
   \<and> fst (getMergedImage decode0 encode0 erased0) = Some ''wwwwhhhho''
   \<and> fst (getMergedImage decode0 encode0 (snd (getMergedImage decode0 encode0 erased0)))
       = Some ''wwwwhhhho''"
proof -
  have v: "fst (getMergedImage decode0 encode0 erased0) = Some ''wwwwhhhho''"
    by code_simp
  have d: "decode0 (imageData erased0) \<noteq> None"
    by code_simp
  show ?thesis
    using getMergedImage_repeatable [of decode0 encode0 erased0] v d by simp
qed

section \<open>Clearing\<close>

lemma drawOnto_transparent_layer:
  "\<forall>x y. x < bm_width c \<and> y < bm_height c \<longrightarrow> bm_px c x y = transparent \<Longrightarrow>
   drawOnto c b = b"
proof -
  assume t: "\<forall>x y. x < bm_width c \<and> y < bm_height c \<longrightarrow> bm_px c x y = transparent"
  have "(\<lambda>x y. if x < bm_width b \<and> y < bm_height b \<and> x < bm_width c \<and> y < bm_height c
               then composite SourceOver (bm_px c x y) (bm_px b x y) else bm_px b x y) = bm_px b"
    by (intro ext) (simp add: t composite_over_transparent del: composite.simps)
  then show ?thesis by (simp add: drawOnto_def)
qed

text \<open>
  Claim C9, as the code has it. Clear All makes every pixel of the annotation layer
  transparent and touches nothing else: not the image data, not the size, not the
  context's path and styles, and not the drawing flag. Flattening afterwards gives the
  base image drawn alone. It can be called in any state, but it does not end a stroke in
  progress.
\<close>

theorem clearCanvas_resets_layer_only:
  assumes "canvasRef s = Some c" "0 < bm_width c" "0 < bm_height c"
  shows "(\<exists>c'. canvasRef (clearCanvas s) = Some c'
            \<and> (\<forall>x y. pixel c' x y = transparent)
            \<and> bm_width c' = bm_width c \<and> bm_height c' = bm_height c
            \<and> ctx_path c' = ctx_path c \<and> ctx_op c' = ctx_op c
            \<and> ctx_strokeStyle c' = ctx_strokeStyle c \<and> ctx_lineWidth c' = ctx_lineWidth c)
         \<and> imageData (clearCanvas s) = imageData s
         \<and> dimensions (clearCanvas s) = dimensions s
         \<and> isDrawing (clearCanvas s) = isDrawing s
         \<and> mergedCanvas decode (clearCanvas s)
             = map_option (\<lambda>img. drawOnto img (blank (fst (dimensions s)) (snd (dimensions s))))
                 (decode (imageData s))"
proof -
  let ?c = "clearRect 0 0 (bm_width c) (bm_height c) c"
  have cl: "clearCanvas s = s\<lparr>canvasRef := Some ?c\<rparr>"
    using assms(1) by (simp add: clearCanvas_def)
  have px: "\<forall>x y. x < bm_width ?c \<and> y < bm_height ?c \<longrightarrow> bm_px ?c x y = transparent"
    by (simp add: clearRect_def)
  have all: "\<forall>x y. pixel ?c x y = transparent"
    by (simp add: pixel_def clearRect_def)
  have fr: "bm_width ?c = bm_width c" "bm_height ?c = bm_height c" "ctx_path ?c = ctx_path c"
      "ctx_op ?c = ctx_op c" "ctx_strokeStyle ?c = ctx_strokeStyle c"
      "ctx_lineWidth ?c = ctx_lineWidth c"
    by (simp_all add: clearRect_def)
  have m: "mergedCanvas decode (clearCanvas s)
             = map_option (\<lambda>img. drawOnto img (blank (fst (dimensions s)) (snd (dimensions s))))
                 (decode (imageData s))"
    using assms(2,3) drawOnto_transparent_layer [OF px]
    by (simp add: cl mergedCanvas_def Let_def fr split: option.splits)
  show ?thesis using all fr m by (simp add: cl)
qed

theorem clearCanvas_resets_layer_only_witness:
  "map_option (\<lambda>c. (bm_width c, bm_height c, bm_px c 0 0)) (canvasRef penned0)
     = Some (4, 4, (1, 0, 0, 1))
   \<and> map_option (\<lambda>c. pixel c 0 0) (canvasRef (clearCanvas penned0)) = Some transparent
   \<and> imageData (clearCanvas penned0) = imageData penned0
   \<and> isDrawing (clearCanvas penned0) = isDrawing penned0"
proof -
  have e: "map_option (\<lambda>c. (bm_width c, bm_height c, bm_px c 0 0)) (canvasRef penned0)
     = Some (4, 4, (1, 0, 0, 1))"
    by code_simp
  then obtain c where c: "canvasRef penned0 = Some c" "bm_width c = 4" "bm_height c = 4"
    by auto
  have "0 < bm_width c" "0 < bm_height c" using c by simp_all
  from clearCanvas_resets_layer_only [OF c(1) this, of decode0]
  show ?thesis using e by auto
qed

text \<open>
  Claim C9 as stated fails in the middle of a stroke: after the clear the drawing flag is
  still set and the path still holds the points drawn before, so the next pointer move
  extends that path and strokes all of it again, and the pixel at the stroke's first point
  is red once more.
\<close>

theorem clear_mid_stroke_counterexample:
  "isDrawing midclear0
   \<and> map_option (\<lambda>c. (ctx_path c, bm_px c 0 0)) (canvasRef midclear0)
       = Some ([(False, [(0, 0), (1, 1)])], (0, 0, 0, 0))
   \<and> map_option (\<lambda>c. (ctx_path c, bm_px c 0 0, bm_px c 2 2))
        (canvasRef (draw raster0 (MouseEv 2 2) rect4 midclear0))
       = Some ([(False, [(0, 0), (1, 1), (2, 2)])], (1, 0, 0, 1), (1, 0, 0, 1))"
  by code_simp

end
